theory Spec2Isabelle
  imports Complex_Main
begin

section \<open>JavaScript strings and numbers\<close>

text \<open>
  A JavaScript string is modelled by a \<^typ>\<open>string\<close>: the list of its code units, each
  below 256 (the Latin-1 range, which holds every letter of the classifier's
  vocabulary). \<open>toLowerCase\<close> maps \<open>A\<close>..\<open>Z\<close> and the accented capitals 192..222
  (without the multiplication sign 215) to the letter 32 places further.
\<close>

definition toLowerChar :: "char \<Rightarrow> char" where
  "toLowerChar c =
     (let n = (of_char c :: nat) in
      if (65 \<le> n \<and> n \<le> 90) \<or> (192 \<le> n \<and> n \<le> 222 \<and> n \<noteq> 215)
      then char_of (n + 32) else c)"

definition toLowerCase :: "string \<Rightarrow> string" where
  "toLowerCase s = map toLowerChar s"

definition startsWith :: "string \<Rightarrow> string \<Rightarrow> bool" where
  "startsWith s p = (take (length p) s = p)"

text \<open>\<open>s.includes(p)\<close>: \<open>p\<close> occurs in \<open>s\<close> as a contiguous piece.\<close>

fun includes_str :: "string \<Rightarrow> string \<Rightarrow> bool" where
  "includes_str [] p = (p = [])"
| "includes_str (c # cs) p = (startsWith (c # cs) p \<or> includes_str cs p)"

text \<open>\<open>xs.join(sep)\<close> on an array of strings.\<close>

fun join :: "string \<Rightarrow> string list \<Rightarrow> string" where
  "join sep [] = []"
| "join sep [x] = x"
| "join sep (x # y # ys) = x @ sep @ join sep (y # ys)"

definition isDigit :: "char \<Rightarrow> bool" where
  "isDigit c = (c \<in> set ''0123456789'')"

definition digitChar :: "nat \<Rightarrow> char" where
  "digitChar n = char_of (48 + n)"

definition digitValue :: "char \<Rightarrow> nat" where
  "digitValue c = of_char c - 48"

fun decimalNat :: "nat \<Rightarrow> string" where
  "decimalNat n =
     (if n < 10 then [digitChar n] else decimalNat (n div 10) @ [digitChar (n mod 10)])"

text \<open>
  Numbers. A JavaScript number is a double; this development covers the doubles on
  which the arithmetic used by the program is exact: \<open>NaN\<close> and the integers of
  magnitude at most \<open>2 ^ 52\<close> (\<open>safeInt\<close>). Fractions, infinities and larger numbers are
  floating-point values outside the model, and every statement that depends on the
  value of a number says so in its hypotheses (\<open>modelledNumeral\<close>, \<open>safeInt\<close>).
\<close>

datatype jsnum = NaN | Num int


text \<open>\<open>Number.prototype.toString\<close>: below \<open>10 ^ 21\<close> an integer prints its decimal digits.\<close>

definition intToString :: "int \<Rightarrow> string" where
  "intToString i = (if i < 0 then CHR ''-'' # decimalNat (nat (- i)) else decimalNat (nat i))"

fun numToString :: "jsnum \<Rightarrow> string" where
  "numToString NaN = ''NaN''"
| "numToString (Num i) = intToString i"

fun isNaN :: "jsnum \<Rightarrow> bool" where
  "isNaN NaN = True"
| "isNaN (Num i) = False"

text \<open>Comparisons with \<open>NaN\<close> are false; arithmetic with \<open>NaN\<close> gives \<open>NaN\<close>.\<close>

fun num_lt :: "jsnum \<Rightarrow> jsnum \<Rightarrow> bool" where
  "num_lt (Num a) (Num b) = (a < b)"
| "num_lt _ _ = False"

fun num_add :: "jsnum \<Rightarrow> jsnum \<Rightarrow> jsnum" where
  "num_add (Num a) (Num b) = Num (a + b)"
| "num_add _ _ = NaN"

fun num_sub :: "jsnum \<Rightarrow> jsnum \<Rightarrow> jsnum" where
  "num_sub (Num a) (Num b) = Num (a - b)"
| "num_sub _ _ = NaN"

fun num_mul :: "jsnum \<Rightarrow> jsnum \<Rightarrow> jsnum" where
  "num_mul (Num a) (Num b) = Num (a * b)"
| "num_mul _ _ = NaN"

text \<open>
  The remainder operator \<open>%\<close>: the result has the sign of the dividend, and a zero
  divisor gives \<open>NaN\<close>.
\<close>

fun num_rem :: "jsnum \<Rightarrow> jsnum \<Rightarrow> jsnum" where
  "num_rem (Num a) (Num b) =
     (if b = 0 then NaN else Num (sgn a * (\<bar>a\<bar> mod \<bar>b\<bar>)))"
| "num_rem _ _ = NaN"

text \<open>Strict inequality \<open>x !== y\<close> of two numbers: \<open>NaN\<close> differs from everything.\<close>

fun num_neq :: "jsnum \<Rightarrow> jsnum \<Rightarrow> bool" where
  "num_neq (Num a) (Num b) = (a \<noteq> b)"
| "num_neq _ _ = True"

text \<open>
  \<open>Number(s)\<close> on a string: white space is trimmed, the empty string is 0, an optionally
  signed run of decimal digits is its value, and a string that is no numeric literal
  is \<open>NaN\<close>. Every numeric literal starts with a digit, a sign, a point or the \<open>I\<close> of
  \<open>Infinity\<close>; \<open>modelledNumeral\<close> holds of the strings whose number the model knows.
\<close>

definition isStrWhiteSpace :: "char \<Rightarrow> bool" where
  "isStrWhiteSpace c = ((of_char c :: nat) \<in> set [9, 10, 11, 12, 13, 32, 160])"

definition trim :: "string \<Rightarrow> string" where
  "trim s = rev (dropWhile isStrWhiteSpace (rev (dropWhile isStrWhiteSpace s)))"

definition digitsValue :: "string \<Rightarrow> nat" where
  "digitsValue ds = foldl (\<lambda>acc c. 10 * acc + digitValue c) 0 ds"

definition isDigits :: "string \<Rightarrow> bool" where
  "isDigits ds = (ds \<noteq> [] \<and> list_all isDigit ds)"

definition Number_str :: "string \<Rightarrow> jsnum" where
  "Number_str s =
     (case trim s of
        [] \<Rightarrow> Num 0
      | c # ds \<Rightarrow>
          if c = CHR ''-'' \<and> isDigits ds then Num (- int (digitsValue ds))
          else if c = CHR ''+'' \<and> isDigits ds then Num (int (digitsValue ds))
          else if isDigits (c # ds) then Num (int (digitsValue (c # ds)))
          else NaN)"


section \<open>JavaScript values and dates\<close>

text \<open>
  A \<open>Date\<close> object is seen through the methods the program calls on it. The local
  calendar fields (\<open>getFullYear\<close>, \<open>getMonth\<close> counted from 0, \<open>getDate\<close>) and the
  three renderings depend on the time zone of the host, so they are part of the value.
\<close>

record date_obs =
  getTime :: int
  getFullYear :: int
  getMonth :: int
  getDate :: int
  toISOString :: string
  toTimeString :: string
  toDateText :: string

datatype jsdate = InvalidDate | ValidDate date_obs

datatype jsval =
    JUndefined
  | JNull
  | JBool bool
  | JNum jsnum
  | JStr string
  | JDate jsdate
  | JArr "jsval list"
  | JObj

text \<open>
  \<open>String(v)\<close>. An array joins the strings of its elements with commas, \<open>null\<close> and
  \<open>undefined\<close> elements giving the empty string; a plain object is \<open>[object Object]\<close>.
\<close>

fun String_js :: "jsval \<Rightarrow> string" where
  "String_js JUndefined = ''undefined''"
| "String_js JNull = ''null''"
| "String_js (JBool b) = (if b then ''true'' else ''false'')"
| "String_js (JNum n) = numToString n"
| "String_js (JStr s) = s"
| "String_js (JDate InvalidDate) = ''Invalid Date''"
| "String_js (JDate (ValidDate d)) = toDateText d"
| "String_js (JArr vs) =
     join '','' (map (\<lambda>v. if v = JUndefined \<or> v = JNull then [] else String_js v) vs)"
| "String_js JObj = ''[object Object]''"

text \<open>\<open>Number(v)\<close>. An array or object is converted through its string.\<close>

fun Number_js :: "jsval \<Rightarrow> jsnum" where
  "Number_js JUndefined = NaN"
| "Number_js JNull = Num 0"
| "Number_js (JBool b) = (if b then Num 1 else Num 0)"
| "Number_js (JNum n) = n"
| "Number_js (JStr s) = Number_str s"
| "Number_js (JDate InvalidDate) = NaN"
| "Number_js (JDate (ValidDate d)) = Num (getTime d)"
| "Number_js (JArr vs) = Number_str (String_js (JArr vs))"
| "Number_js JObj = NaN"

text \<open>
  What is thrown is seen through its \<open>message\<close>, which the \<open>catch\<close> blocks read: an
  \<open>Error\<close> object, or another object with a message, by the text of the message, and
  any other thrown value by itself. Reading the message of \<open>null\<close> or \<open>undefined\<close>
  throws a \<open>TypeError\<close>; any other value without a message gives \<open>undefined\<close>, which
  the template strings of the \<open>catch\<close> blocks print.
\<close>

datatype exn = Error string | Thrown jsval

definition typeErrorText :: "string \<Rightarrow> string" where
  "typeErrorText v =
     ''Cannot read properties of '' @ v @ '' (reading '' @ [CHR 0x27] @ ''message''
       @ [CHR 0x27] @ '')''"

fun message :: "exn \<Rightarrow> exn + string" where
  "message (Error m) = Inr m"
| "message (Thrown JNull) = Inl (Error (typeErrorText ''null''))"
| "message (Thrown JUndefined) = Inl (Error (typeErrorText ''undefined''))"
| "message (Thrown v) = Inr ''undefined''"

definition padStart2 :: "string \<Rightarrow> string" where
  "padStart2 s = replicate (2 - length s) CHR ''0'' @ s"

text \<open>\<open>s.split('T')[0]\<close>: the piece of \<open>s\<close> before the first \<open>T\<close>.\<close>

definition beforeT :: "string \<Rightarrow> string" where
  "beforeT s = takeWhile (\<lambda>c. c \<noteq> CHR ''T'') s"

subsection \<open>Calendar arithmetic of \<open>Date.UTC\<close> and the UTC getters\<close>

text \<open>
  \<open>getWeekNumber\<close> works on dates at midnight UTC, so a time is modelled by its day
  number: the number of days since 1 January 1970. \<open>DayFromYear\<close>, \<open>InLeapYear\<close>, \<open>MakeDay\<close> and
  \<open>WeekDay\<close> are the abstract operations of the language standard. \<open>YearFromDay d\<close>
  is specified there as the largest \<open>y\<close> with \<open>DayFromYear y \<le> d\<close>; here it is found
  by counting up from a year that is not too late.
\<close>

definition DayFromYear :: "int \<Rightarrow> int" where
  "DayFromYear y =
     365 * (y - 1970) + (y - 1969) div 4 - (y - 1901) div 100 + (y - 1601) div 400"

definition InLeapYear :: "int \<Rightarrow> bool" where
  "InLeapYear y = (DayFromYear (y + 1) - DayFromYear y = 366)"

definition daysBeforeMonth :: "int \<Rightarrow> int \<Rightarrow> int" where
  "daysBeforeMonth y m =
     (let leap = (if InLeapYear y then 1 else 0) in
      if m = 0 then 0 else if m = 1 then 31
      else [59, 90, 120, 151, 181, 212, 243, 273, 304, 334] ! nat (m - 2) + leap)"

definition MakeDay :: "int \<Rightarrow> int \<Rightarrow> int \<Rightarrow> int" where
  "MakeDay year month date =
     (let ym = year + month div 12; mn = month mod 12
      in DayFromYear ym + daysBeforeMonth ym mn + date - 1)"

text \<open>\<open>Date.UTC(year, month, date)\<close>: a year from 0 to 99 stands for 1900 + year.\<close>

definition Date_UTC :: "int \<Rightarrow> int \<Rightarrow> int \<Rightarrow> int" where
  "Date_UTC year month date =
     MakeDay (if 0 \<le> year \<and> year \<le> 99 then 1900 + year else year) month date"

definition getUTCDay :: "int \<Rightarrow> int" where
  "getUTCDay d = (d + 4) mod 7"

function yearSearch :: "int \<Rightarrow> int \<Rightarrow> int" where
  "yearSearch d y = (if DayFromYear (y + 1) \<le> d then yearSearch d (y + 1) else y)"
  by pat_completeness auto
termination
  by (relation "measure (\<lambda>(d, y). nat (d + 1 - DayFromYear (y + 1)))")
     (auto simp: DayFromYear_def)

definition getUTCFullYear :: "int \<Rightarrow> int" where
  "getUTCFullYear d =
     yearSearch d (1970 + (if 0 \<le> d then d div 366 else d div 365))"

text \<open>\<open>Math.ceil(n / 7)\<close> for an integer \<open>n\<close>.\<close>

definition ceilDiv7 :: "int \<Rightarrow> int" where
  "ceilDiv7 n = - ((- n) div 7)"

text \<open>
  \<open>getWeekNumber(date)\<close> (form-filler.js). \<open>d.setUTCDate(d.getUTCDate() + 4 - dayNum)\<close>
  moves \<open>d\<close> by \<open>4 - dayNum\<close> days; the difference of two dates divided by 86400000 is
  the difference of their day numbers.
\<close>

definition getWeekNumber :: "date_obs \<Rightarrow> int" where
  "getWeekNumber date =
     (let d = Date_UTC (getFullYear date) (getMonth date) (getDate date);
          dayNum = (if getUTCDay d = 0 then 7 else getUTCDay d);
          d = d + 4 - dayNum;
          yearStart = Date_UTC (getUTCFullYear d) 0 1
      in ceilDiv7 ((d - yearStart) + 1))"

section \<open>The document\<close>

text \<open>
  A control is a record of the properties the program reads and writes. The results of
  the look-ups into the rest of the page are properties as well: the classes of the
  ancestors up to the body, the computed style, and the texts of the labels.

  The program pastes the id and the name of a control into selectors without escaping
  them. \<open>labelFor\<close> is the outcome of \<open>document.querySelector\<close> on \<open>label[for="id"]\<close>
  with the id of the control: the \<open>SyntaxError\<close> thrown for a selector that the id makes
  ill-formed (an id such as \<open>a"b\<close>), or else the trimmed text of the label found, if
  any. \<open>namedRadios\<close> is the outcome of \<open>document.querySelectorAll\<close> on
  \<open>input[type="radio"][name="name"]\<close> with the name of the control, in the same way.
  \<open>radioButtonGroup\<close> holds the other radio buttons of the group of the control: those of
  the same form owner with the same name, which the browser unchecks when it checks
  this one. An assignment to \<open>value\<close> is a plain store.

  \<open>options\<close> is \<open>None\<close> on a control that is no \<open>select\<close> (the property is undefined
  there); \<open>selectedIndex\<close> is read off the options.
\<close>

record opt =
  opt_value :: string
  opt_label :: string
  selected :: bool

record elem =
  tagName :: string
  el_type :: string
  name :: string
  el_id :: string
  placeholder :: string
  className :: string
  required :: bool
  multiple :: bool
  el_value :: string
  checked :: bool
  disabled :: bool
  readOnly :: bool
  el_min :: string
  el_max :: string
  step :: string
  maxLength :: int
  options :: "opt list option"
  offsetParentNull :: bool
  style_display :: string
  style_visibility :: string
  style_opacity :: string
  computed_display :: string
  computed_visibility :: string
  offsetHeight :: int
  offsetWidth :: int
  ancestorClasses :: "string list list"
  labelFor :: "exn + string option"
  labelAround :: "string option"
  ariaLabel :: "string option"
  ariaLabelledBy :: "string option"
  namedRadios :: "exn + nat list"
  radioButtonGroup :: "nat list"

text \<open>
  \<open>classList\<close> is the set of tokens of \<open>className\<close> in order of first occurrence;
  \<open>add\<close> and \<open>remove\<close> write the changed set back, its tokens separated by one space.
\<close>

definition isAsciiSpace :: "char \<Rightarrow> bool" where
  "isAsciiSpace c = ((of_char c :: nat) \<in> set [9, 10, 12, 13, 32])"

fun tokens :: "string \<Rightarrow> string \<Rightarrow> string list" where
  "tokens [] cur = (if cur = [] then [] else [cur])"
| "tokens (c # cs) cur =
     (if isAsciiSpace c then (if cur = [] then tokens cs [] else cur # tokens cs [])
      else tokens cs (cur @ [c]))"

definition classList :: "elem \<Rightarrow> string list" where
  "classList e = rev (remdups (rev (tokens (className e) [])))"

definition classList_remove :: "string list \<Rightarrow> elem \<Rightarrow> elem" where
  "classList_remove ts e =
     e\<lparr>className := join '' '' (filter (\<lambda>t. t \<notin> set ts) (classList e))\<rparr>"

definition classList_add :: "string \<Rightarrow> elem \<Rightarrow> elem" where
  "classList_add t e =
     e\<lparr>className := join '' '' (if t \<in> set (classList e) then classList e else classList e @ [t])\<rparr>"

definition selectedIndex :: "opt list \<Rightarrow> int" where
  "selectedIndex os =
     (case filter (\<lambda>i. selected (os ! i)) [0..<length os] of [] \<Rightarrow> - 1 | i # _ \<Rightarrow> int i)"

text \<open>\<open>field.selectedIndex = i\<close> selects option \<open>i\<close> and no other.\<close>

definition set_selectedIndex :: "nat \<Rightarrow> opt list \<Rightarrow> opt list" where
  "set_selectedIndex i os = map (\<lambda>j. (os ! j)\<lparr>selected := (j = i)\<rparr>) [0..<length os]"

text \<open>
  A field descriptor, as \<open>createFieldDescriptor\<close> builds it. \<open>element\<close> is a reference
  to the control: the controls live in a store, a function from references to controls.
\<close>

record descriptor =
  element :: nat
  fd_type :: string
  subtype :: string
  fd_name :: string
  fd_id :: string
  label :: string
  fd_placeholder :: string
  fd_required :: bool
  fd_value :: jsval
  fillable :: bool
  reason :: string
  category :: string
  fieldSubtype :: string
  confidence :: rat
  detectedFrom :: string

section \<open>The scanner and the protection filter (form-detector.js)\<close>

definition getFieldType :: "elem \<Rightarrow> string" where
  "getFieldType e =
     (let tag = toLowerCase (tagName e) in
      if tag = ''input'' then (if el_type e \<noteq> [] then el_type e else ''text'')
      else if tag = ''textarea'' then ''textarea''
      else if tag = ''select'' then (if multiple e then ''select-multiple'' else ''select-one'')
      else ''unknown'')"

definition orEmpty :: "string option \<Rightarrow> string" where
  "orEmpty t = (case t of None \<Rightarrow> [] | Some s \<Rightarrow> s)"

text \<open>
  \<open>getFieldLabel\<close> of the detector: the label that names the control by its id (asked
  for only when the id is not empty), else the label around it, else \<open>aria-label\<close>,
  else the element \<open>aria-labelledby\<close> names. An empty text counts as no label.
\<close>

definition getFieldLabel :: "elem \<Rightarrow> exn + string" where
  "getFieldLabel e =
     (case (if el_id e \<noteq> [] then labelFor e else Inr None) of
        Inl err \<Rightarrow> Inl err
      | Inr labelElement \<Rightarrow>
          (let lbl = orEmpty labelElement;
               lbl = (if lbl = [] then orEmpty (labelAround e) else lbl);
               lbl = (if lbl = [] then orEmpty (ariaLabel e) else lbl);
               lbl = (if lbl = [] then orEmpty (ariaLabelledBy e) else lbl)
           in Inr lbl))"

text \<open>A \<open>select\<close> always has its list of options; \<open>None\<close> is read as the empty list.\<close>

definition getFieldValue :: "elem \<Rightarrow> jsval" where
  "getFieldValue e =
     (let ty = getFieldType e; os = (case options e of None \<Rightarrow> [] | Some os \<Rightarrow> os) in
      if ty = ''checkbox'' \<or> ty = ''radio'' then JBool (checked e)
      else if ty = ''select-one''
      then (if selectedIndex os \<ge> 0 then JStr (opt_value (os ! nat (selectedIndex os)))
            else JStr [])
      else if ty = ''select-multiple'' then JArr (map (\<lambda>opt. JStr (opt_value opt)) (filter selected os))
      else JStr (el_value e))"

definition captchaClasses :: "string list" where
  "captchaClasses = [''captcha'', ''recaptcha'', ''g-recaptcha'', ''hcaptcha'']"

definition honeypotNames :: "string list" where
  "honeypotNames = [''honeypot'', ''bot-field'', ''spam-check'', ''website'', ''url'']"

definition isProtectedField :: "elem \<Rightarrow> bool" where
  "isProtectedField e =
     (if list_ex (\<lambda>cls. cls \<in> set (classList e)) captchaClasses then True
      else if list_ex (\<lambda>parentClasses. list_ex (\<lambda>cls. cls \<in> set parentClasses) captchaClasses)
                (ancestorClasses e) then True
      else if style_display e = ''none'' \<or> style_visibility e = ''hidden'' \<or>
              style_opacity e = ''0'' \<or> offsetHeight e = 0 \<or> offsetWidth e = 0 then True
      else if list_ex (\<lambda>nm. includes_str (toLowerCase (name e)) nm \<or>
                             includes_str (toLowerCase (el_id e)) nm) honeypotNames then True
      else False)"

definition isFieldFillable :: "elem \<Rightarrow> bool" where
  "isFieldFillable e =
     (if disabled e \<or> readOnly e then False
      else if offsetParentNull e \<and> style_display e \<noteq> ''none'' \<and> style_visibility e \<noteq> ''hidden''
              \<and> (computed_display e = ''none'' \<or> computed_visibility e = ''hidden'') then False
      else if isProtectedField e then False
      else if el_type e = ''file'' then False
      else True)"

definition getUnfillableReason :: "elem \<Rightarrow> string" where
  "getUnfillableReason e =
     (if disabled e then ''Field is disabled''
      else if readOnly e then ''Field is read-only''
      else if el_type e = ''file'' then ''File inputs cannot be filled for security''
      else if isProtectedField e then ''Protected field (CAPTCHA/honeypot)''
      else if offsetParentNull e then ''Field is hidden''
      else ''Unknown reason'')"

section \<open>The classifier (form-detector.js)\<close>

text \<open>
  Every pattern of the classifier has the form \<open>/\b(w1|w2|...)\b/\<close>, where a word is made
  of letters and of dots, a dot standing for any character but a line break. A
  pattern is the list of its words. \<open>\b\<close> holds between two places of which exactly one
  is a word character (a letter without accent, a digit or the underscore); outside
  the string there is no word character.
\<close>

definition isWordChar :: "char \<Rightarrow> bool" where
  "isWordChar c =
     (c \<in> set ''abcdefghijklmnopqrstuvwxyzABCDEFGHIJKLMNOPQRSTUVWXYZ0123456789_'')"

definition isLineBreak :: "char \<Rightarrow> bool" where
  "isLineBreak c = ((of_char c :: nat) \<in> set [10, 13])"

fun matchHere :: "string \<Rightarrow> string \<Rightarrow> bool" where
  "matchHere [] s = True"
| "matchHere (p # ps) [] = False"
| "matchHere (p # ps) (c # cs) =
     ((if p = CHR ''.'' then \<not> isLineBreak c else p = c) \<and> matchHere ps cs)"

definition wordBoundary :: "char option \<Rightarrow> string \<Rightarrow> bool" where
  "wordBoundary prev rest =
     ((case prev of None \<Rightarrow> False | Some c \<Rightarrow> isWordChar c)
        \<noteq> (case rest of [] \<Rightarrow> False | c # _ \<Rightarrow> isWordChar c))"

definition matchAt :: "string list \<Rightarrow> char option \<Rightarrow> string \<Rightarrow> bool" where
  "matchAt ws prev s =
     (wordBoundary prev s \<and>
      list_ex (\<lambda>w. matchHere w s \<and>
                    wordBoundary (if w = [] then prev else Some (s ! (length w - 1)))
                      (drop (length w) s)) ws)"

fun searchFrom :: "string list \<Rightarrow> char option \<Rightarrow> string \<Rightarrow> bool" where
  "searchFrom ws prev [] = matchAt ws prev []"
| "searchFrom ws prev (c # cs) = (matchAt ws prev (c # cs) \<or> searchFrom ws (Some c) cs)"

text \<open>\<open>s.match(pattern)\<close> is not \<open>null\<close>.\<close>

definition matches :: "string \<Rightarrow> string list \<Rightarrow> bool" where
  "matches s ws = searchFrom ws None s"

subsection \<open>The vocabulary\<close>

text \<open>The patterns of \<open>classifyField\<close>, in the order of the source; the accented letters are
  written by their codes (233 e acute, 226 a circumflex, 251 u circumflex).\<close>

definition re_firstName :: "string list" where
  "re_firstName =
    [''firstname'', ''fname'', ''first.name'', ''given.name'',
     ''pr'' @ [CHR 0xE9] @ ''nom'', ''prenom'']"

definition re_lastName :: "string list" where
  "re_lastName =
    [''lastname'', ''lname'', ''last.name'', ''surname'', ''family.name'', ''nom'',
     ''nom.famille'']"

definition re_fullName :: "string list" where
  "re_fullName =
    [''fullname'', ''full.name'', ''name'', ''nom.complet'']"

definition re_notPersonName :: "string list" where
  "re_notPersonName =
    [''user'', ''company'', ''file'', ''project'']"

definition re_email :: "string list" where
  "re_email =
    [''email'', ''e.mail'', ''mail'', ''courriel'']"

definition re_phone :: "string list" where
  "re_phone =
    [''phone'', ''tel'', ''telephone'', ''mobile'', ''cell'', ''fax'',
     ''t'' @ [CHR 0xE9] @ ''l'' @ [CHR 0xE9] @ ''phone'']"

definition re_username :: "string list" where
  "re_username =
    [''username'', ''user.name'', ''login'', ''account'', ''utilisateur'']"

definition re_password :: "string list" where
  "re_password =
    [''password'', ''pass'', ''pwd'', ''mot.de.passe'']"

definition re_address :: "string list" where
  "re_address =
    [''address'', ''street'', ''addr'', ''address1'', ''address2'', ''adresse'', ''rue'']"

definition re_address2 :: "string list" where
  "re_address2 =
    [''address2'', ''apt'', ''apartment'', ''suite'', ''unit'', ''appartement'']"

definition re_city :: "string list" where
  "re_city =
    [''city'', ''town'', ''locality'', ''ville'', ''localit'' @ [CHR 0xE9]]"

definition re_state :: "string list" where
  "re_state =
    [''state'', ''province'', ''region'', ''county'', [CHR 0xE9] @ ''tat'',
     ''r'' @ [CHR 0xE9] @ ''gion'']"

definition re_zip :: "string list" where
  "re_zip =
    [''zip'', ''postal'', ''postcode'', ''zipcode'', ''postalcode'', ''code.postal'']"

definition re_country :: "string list" where
  "re_country =
    [''country'', ''nation'', ''pays'']"

definition re_company :: "string list" where
  "re_company =
    [''company'', ''organization'', ''employer'', ''business'', ''corp'', ''entreprise'',
     ''soci'' @ [CHR 0xE9] @ ''t'' @ [CHR 0xE9]]"

definition re_job :: "string list" where
  "re_job =
    [''job'', ''title'', ''position'', ''occupation'', ''role'', ''poste'', ''titre'']"

definition re_date :: "string list" where
  "re_date =
    [''date'', ''birth'', ''dob'', ''birthday'', ''naissance'']"

definition re_birth :: "string list" where
  "re_birth =
    [''birth'', ''dob'', ''birthday'', ''naissance'']"

definition re_time :: "string list" where
  "re_time =
    [''time'', ''hour'', ''minute'', ''heure'', ''temps'']"

definition re_number :: "string list" where
  "re_number =
    [''age'', ''number'', ''num'', ''quantity'', ''amount'', ''nombre'',
     ''quantit'' @ [CHR 0xE9], [CHR 0xE2] @ ''ge'']"

definition re_age :: "string list" where
  "re_age =
    [''age'', [CHR 0xE2] @ ''ge'']"

definition re_price :: "string list" where
  "re_price =
    [''price'', ''cost'', ''salary'', ''income'', ''prix'', ''salaire'',
     ''co'' @ [CHR 0xFB] @ ''t'']"

definition re_quantity :: "string list" where
  "re_quantity =
    [''quantity'', ''qty'', ''amount'', ''quantit'' @ [CHR 0xE9]]"

definition re_url :: "string list" where
  "re_url =
    [''url'', ''website'', ''site'', ''link'', ''homepage'', ''lien'']"

definition re_color :: "string list" where
  "re_color =
    [''color'', ''colour'', ''couleur'']"

definition re_creditCard :: "string list" where
  "re_creditCard =
    [''credit.card'', ''creditcard'', ''card.number'', ''carte.cr'' @ [CHR 0xE9] @ ''dit'']"

definition re_cvv :: "string list" where
  "re_cvv =
    [''cvv'', ''cvc'', ''security.code'', ''code.s'' @ [CHR 0xE9] @ ''curit'' @ [CHR 0xE9]]"

definition re_ssn :: "string list" where
  "re_ssn =
    [''ssn'', ''social.security'', ''tax.id'', ''nas'']"

definition re_paragraph :: "string list" where
  "re_paragraph =
    [''message'', ''comment'', ''description'', ''notes'', ''details'', ''bio'', ''about'',
     ''commentaire'', ''remarques'']"

subsection \<open>\<open>classifyField\<close>\<close>

record classification =
  c_category :: string
  c_subtype :: string
  originalType :: string
  c_confidence :: rat
  c_detectedFrom :: string

definition classType :: "elem \<Rightarrow> string" where
  "classType e = (if el_type e \<noteq> [] then toLowerCase (el_type e) else ''text'')"

definition allText :: "elem \<Rightarrow> string \<Rightarrow> string" where
  "allText e lbl =
     toLowerCase (name e @ '' '' @ el_id e @ '' '' @ placeholder e @ '' '' @ className e
                  @ '' '' @ lbl)"

definition getDetectionSource :: "string \<Rightarrow> string \<Rightarrow> string" where
  "getDetectionSource txt ty =
     (let sources =
            (if ty \<noteq> [] \<and> ty \<noteq> ''text'' then [''input-type''] else [])
            @ (if includes_str txt ''name'' then [''name-attribute''] else [])
            @ (if includes_str txt ''id'' then [''id-attribute''] else [])
            @ (if includes_str txt ''placeholder'' then [''placeholder''] else [])
            @ (if includes_str txt ''class'' then [''class-name''] else [])
      in if length sources > 0 then join '', '' sources else ''heuristic'')"

text \<open>
  The chain of rules gives the category, the subtype and the confidence; the first
  rule whose condition holds decides.
\<close>

definition classifyRules :: "elem \<Rightarrow> string \<Rightarrow> string \<Rightarrow> string \<times> string \<times> rat" where
  "classifyRules e ty txt =
     (if matches txt re_firstName then (''personal'', ''firstName'', 9/10)
      else if matches txt re_lastName then (''personal'', ''lastName'', 9/10)
      else if matches txt re_fullName \<and> \<not> matches txt re_notPersonName
      then (''personal'', ''fullName'', 8/10)
      else if ty = ''email'' \<or> matches txt re_email then (''personal'', ''email'', 95/100)
      else if matches txt re_phone then (''personal'', ''phone'', 9/10)
      else if matches txt re_username then (''personal'', ''username'', 85/100)
      else if ty = ''password'' \<or> matches txt re_password
      then (''personal'', ''password'', 95/100)
      else if matches txt re_address
      then (''address'', (if matches txt re_address2 then ''address2'' else ''address1''), 9/10)
      else if matches txt re_city then (''address'', ''city'', 9/10)
      else if matches txt re_state then (''address'', ''state'', 9/10)
      else if matches txt re_zip then (''address'', ''zipCode'', 9/10)
      else if matches txt re_country then (''address'', ''country'', 9/10)
      else if matches txt re_company then (''work'', ''company'', 85/100)
      else if matches txt re_job then (''work'', ''jobTitle'', 85/100)
      else if ty = ''date'' \<or> matches txt re_date
      then (''datetime'', (if matches txt re_birth then ''birthDate'' else ''date''), 9/10)
      else if ty = ''time'' \<or> matches txt re_time then (''datetime'', ''time'', 9/10)
      else if ty = ''number'' \<or> matches txt re_number
      then (''number'',
            (if matches txt re_age then ''age''
             else if matches txt re_price then ''price''
             else if matches txt re_quantity then ''quantity''
             else ''number''), 8/10)
      else if ty = ''url'' \<or> matches txt re_url then (''web'', ''url'', 9/10)
      else if ty = ''color'' \<or> matches txt re_color then (''web'', ''color'', 9/10)
      else if matches txt re_creditCard then (''financial'', ''creditCard'', 9/10)
      else if matches txt re_cvv then (''financial'', ''cvv'', 9/10)
      else if matches txt re_ssn then (''financial'', ''ssn'', 9/10)
      else if tagName e = ''TEXTAREA'' \<or> matches txt re_paragraph
      then (''text'', ''paragraph'', 8/10)
      else if ty = ''text'' \<or> ty = [] then (''text'', ''text'', 6/10)
      else (''general'', ty, 5/10))"

text \<open>The look-up of the label may throw; nothing of the rest does.\<close>

definition classifyField :: "elem \<Rightarrow> exn + classification" where
  "classifyField e =
     (case getFieldLabel e of
        Inl err \<Rightarrow> Inl err
      | Inr lbl \<Rightarrow>
          (let ty = classType e; txt = allText e lbl in
           case classifyRules e ty txt of
             (cat, sub, conf) \<Rightarrow>
               Inr \<lparr>c_category = cat, c_subtype = sub, originalType = ty, c_confidence = conf,
                    c_detectedFrom = getDetectionSource txt ty\<rparr>))"

subsection \<open>Descriptors and the scan\<close>

definition createFieldDescriptor :: "(nat \<Rightarrow> elem) \<Rightarrow> nat \<Rightarrow> exn + descriptor" where
  "createFieldDescriptor store r =
     (let e = store r in
      case classifyField e of
        Inl err \<Rightarrow> Inl err
      | Inr cl \<Rightarrow>
          (case getFieldLabel e of
             Inl err \<Rightarrow> Inl err
           | Inr lbl \<Rightarrow>
               (let d = \<lparr>element = r, fd_type = getFieldType e,
                         subtype = (if el_type e \<noteq> [] then el_type e else ''text''),
                         fd_name = name e, fd_id = el_id e, label = lbl,
                         fd_placeholder = placeholder e, fd_required = required e,
                         fd_value = getFieldValue e, fillable = isFieldFillable e, reason = [],
                         category = c_category cl, fieldSubtype = c_subtype cl,
                         confidence = c_confidence cl, detectedFrom = c_detectedFrom cl\<rparr>
                in Inr (if \<not> fillable d then d\<lparr>reason := getUnfillableReason e\<rparr> else d))))"

text \<open>
  A root to scan: the controls under it that the selectors of \<open>detectFormFields\<close> match,
  in document order, and the shadow roots of the elements under it.
\<close>

datatype root = Root "nat list" "root list"

text \<open>
  The detector keeps the last list of descriptors in \<open>detectedFields\<close>. The scan of a
  shadow root is a call of \<open>detectFormFields\<close> of its own, which stores its list as
  well, and passes on the controls of its descriptors; the scan around it describes
  them again. An exception of \<open>createFieldDescriptor\<close> ends the scan and leaves the
  method; \<open>detectedFields\<close> is then what the last finished scan of a shadow root stored.
\<close>

record detector =
  detectedFields :: "descriptor list"

text \<open>\<open>allFields.map(field => this.createFieldDescriptor(field))\<close>\<close>

fun describeAll :: "(nat \<Rightarrow> elem) \<Rightarrow> nat list \<Rightarrow> exn + descriptor list" where
  "describeAll store [] = Inr []"
| "describeAll store (r # rs) =
     (case createFieldDescriptor store r of
        Inl err \<Rightarrow> Inl err
      | Inr d \<Rightarrow> (case describeAll store rs of Inl err \<Rightarrow> Inl err | Inr ds \<Rightarrow> Inr (d # ds)))"

fun detectFormFields ::
    "(nat \<Rightarrow> elem) \<Rightarrow> root \<Rightarrow> detector \<Rightarrow> (exn + descriptor list) \<times> detector"
  and detectShadowDOMFields ::
    "(nat \<Rightarrow> elem) \<Rightarrow> root list \<Rightarrow> detector \<Rightarrow> (exn + nat list) \<times> detector" where
  "detectFormFields store (Root domFields shadows) det =
     (case detectShadowDOMFields store shadows det of
        (Inl err, det) \<Rightarrow> (Inl err, det)
      | (Inr shadowFields, det) \<Rightarrow>
          (case describeAll store (domFields @ shadowFields) of
             Inl err \<Rightarrow> (Inl err, det)
           | Inr ds \<Rightarrow>
               (Inr (filter fillable ds), det\<lparr>detectedFields := filter fillable ds\<rparr>)))"
| "detectShadowDOMFields store [] det = (Inr [], det)"
| "detectShadowDOMFields store (sh # shs) det =
     (case detectFormFields store sh det of
        (Inl err, det) \<Rightarrow> (Inl err, det)
      | (Inr shadowRootFields, det) \<Rightarrow>
          (case detectShadowDOMFields store shs det of
             (Inl err, det) \<Rightarrow> (Inl err, det)
           | (Inr rest, det) \<Rightarrow> (Inr (map element shadowRootFields @ rest), det)))"

definition getFillableFieldsCount :: "detector \<Rightarrow> nat" where
  "getFillableFieldsCount det = length (filter (\<lambda>field. fillable field) (detectedFields det))"

definition getProtectedFieldsCount :: "detector \<Rightarrow> nat" where
  "getProtectedFieldsCount det =
     length (filter (\<lambda>field. \<not> fillable field) (detectedFields det))"

section \<open>The value mapper (field-mapper.js)\<close>

text \<open>
  The user's data is a tree of objects with values at the leaves. \<open>getValueFromPath\<close>
  walks the keys of a dotted path; it gives \<open>null\<close> when the path or the data is
  missing or a key is not there, and the object itself when the path ends on one.
\<close>

datatype udata = Leaf jsval | Object "(string \<times> udata) list"

fun splitDots :: "string \<Rightarrow> string \<Rightarrow> string list" where
  "splitDots [] cur = [cur]"
| "splitDots (c # cs) cur = (if c = CHR ''.'' then cur # splitDots cs [] else splitDots cs (cur @ [c]))"

fun walk :: "udata \<Rightarrow> string list \<Rightarrow> jsval" where
  "walk (Leaf v) [] = v"
| "walk (Object kvs) [] = JObj"
| "walk (Leaf v) (k # ks) = JNull"
| "walk (Object kvs) (k # ks) = (case map_of kvs k of None \<Rightarrow> JNull | Some u \<Rightarrow> walk u ks)"

definition falsyData :: "udata \<Rightarrow> bool" where
  "falsyData obj =
     (obj \<in> set [Leaf JNull, Leaf JUndefined, Leaf (JBool False), Leaf (JNum NaN),
                 Leaf (JNum (Num 0)), Leaf (JStr [])])"

definition getValueFromPath :: "udata \<Rightarrow> string option \<Rightarrow> jsval" where
  "getValueFromPath obj path =
     (case path of
        None \<Rightarrow> JNull
      | Some p \<Rightarrow> if p = [] \<or> falsyData obj then JNull else walk obj (splitDots p []))"

definition generateCacheKey :: "descriptor \<Rightarrow> string" where
  "generateCacheKey fd =
     toLowerCase (fd_type fd @ ''-'' @ subtype fd @ ''-'' @ fd_name fd @ ''-'' @ fd_id fd
                  @ ''-'' @ label fd)"

definition shouldFillPassword :: "descriptor \<Rightarrow> bool" where
  "shouldFillPassword fd = False"

text \<open>
  \<open>determineFieldMapping\<close> answers a password field at once. For every other field it
  goes on to the scoring of the search text against the pattern table and to the
  analysis of the surrounding page; that part is the parameter \<open>analyse\<close>, which gives
  a data path, \<open>null\<close> (\<open>None\<close>), or throws.
\<close>

type_synonym analysis = "(nat \<Rightarrow> elem) \<Rightarrow> descriptor \<Rightarrow> exn + string option"

definition determineFieldMapping ::
  "analysis \<Rightarrow> (nat \<Rightarrow> elem) \<Rightarrow> descriptor \<Rightarrow> exn + string option" where
  "determineFieldMapping analyse store fd =
     (if subtype fd = ''password''
      then Inr (if shouldFillPassword fd then Some ''personal.password'' else None)
      else analyse store fd)"

text \<open>The mapper's state is its cache, from cache keys to data paths.\<close>

type_synonym fieldCache = "string \<Rightarrow> string option"

definition mapValueToField ::
  "analysis \<Rightarrow> fieldCache \<Rightarrow> (nat \<Rightarrow> elem) \<Rightarrow> descriptor \<Rightarrow> udata
     \<Rightarrow> (exn + jsval) \<times> fieldCache" where
  "mapValueToField analyse cache store fd userData =
     (let cacheKey = generateCacheKey fd in
      case cache cacheKey of
        Some cachedMapping \<Rightarrow> (Inr (getValueFromPath userData (Some cachedMapping)), cache)
      | None \<Rightarrow>
          (case determineFieldMapping analyse store fd of
             Inl err \<Rightarrow> (Inl err, cache)
           | Inr mapping \<Rightarrow>
               if mapping \<noteq> None \<and> mapping \<noteq> Some []
               then (Inr (getValueFromPath userData mapping), cache(cacheKey := mapping))
               else (Inr JNull, cache)))"

section \<open>The fill engine (form-filler.js)\<close>

subsection \<open>The writers of the single kinds\<close>

text \<open>
  Each writer takes the control and the value and returns what the method returns
  together with the control as it is left.
\<close>

definition fillTextInput :: "elem \<Rightarrow> jsval \<Rightarrow> bool \<times> elem" where
  "fillTextInput field v = (True, field\<lparr>el_value := String_js v\<rparr>)"

definition fillPasswordInput :: "elem \<Rightarrow> jsval \<Rightarrow> bool \<times> elem" where
  "fillPasswordInput field v = (True, field\<lparr>el_value := String_js v\<rparr>)"

definition fillNumberInput :: "elem \<Rightarrow> jsval \<Rightarrow> bool \<times> elem" where
  "fillNumberInput field v =
     (let numValue = Number_js v in
      if isNaN numValue then (False, field)
      else if el_min field \<noteq> [] \<and> num_lt numValue (Number_str (el_min field))
      then (False, field)
      else if el_max field \<noteq> [] \<and> num_lt (Number_str (el_max field)) numValue
      then (False, field)
      else if step field \<noteq> [] \<and> step field \<noteq> ''any'' \<and>
              (let stp = Number_str (step field);
                   mn = (case Number_str (el_min field) of NaN \<Rightarrow> Num 0 | Num m \<Rightarrow> Num m)
               in num_neq (num_rem (num_sub numValue mn) stp) (Num 0))
      then (False, field)
      else (True, field\<lparr>el_value := numToString numValue\<rparr>))"

text \<open>
  \<open>fillDateTimeInput\<close>. \<open>parse\<close> stands for \<open>new Date(string)\<close>, whose result depends on
  the host. The year written for a week is \<open>getFullYear\<close> of the date.
\<close>

definition fillDateTimeInput ::
  "(string \<Rightarrow> jsdate) \<Rightarrow> elem \<Rightarrow> string \<Rightarrow> jsval \<Rightarrow> bool \<times> elem" where
  "fillDateTimeInput parse field ty v =
     (case (case v of JDate d \<Rightarrow> Some d | JStr s \<Rightarrow> Some (parse s) | _ \<Rightarrow> None) of
        None \<Rightarrow> (False, field)
      | Some InvalidDate \<Rightarrow> (False, field)
      | Some (ValidDate dateValue) \<Rightarrow>
          if ty = ''date'' then (True, field\<lparr>el_value := beforeT (toISOString dateValue)\<rparr>)
          else if ty = ''datetime-local''
          then (True, field\<lparr>el_value := take 16 (toISOString dateValue)\<rparr>)
          else if ty = ''time'' then (True, field\<lparr>el_value := take 5 (toTimeString dateValue)\<rparr>)
          else if ty = ''month'' then (True, field\<lparr>el_value := take 7 (toISOString dateValue)\<rparr>)
          else if ty = ''week''
          then (let year = getFullYear dateValue; week = getWeekNumber dateValue
                in (True, field\<lparr>el_value :=
                      intToString year @ ''-W'' @ padStart2 (intToString week)\<rparr>))
          else (False, field))"

definition isHexDigit :: "char \<Rightarrow> bool" where
  "isHexDigit c = (c \<in> set ''0123456789ABCDEFabcdef'')"

definition fillColorInput :: "elem \<Rightarrow> jsval \<Rightarrow> bool \<times> elem" where
  "fillColorInput field v =
     (case v of
        JStr s \<Rightarrow>
          (case s of
             c # hex \<Rightarrow>
               if c = CHR ''#'' \<and> length hex = 6 \<and> list_all isHexDigit hex
               then (True, field\<lparr>el_value := toLowerCase s\<rparr>)
               else (False, field)
           | [] \<Rightarrow> (False, field))
      | _ \<Rightarrow> (False, field))"

definition fillTextarea :: "elem \<Rightarrow> jsval \<Rightarrow> bool \<times> elem" where
  "fillTextarea field v =
     (let s = String_js v;
          s = (if maxLength field > 0 \<and> int (length s) > maxLength field
               then take (nat (maxLength field)) s else s)
      in (True, field\<lparr>el_value := s\<rparr>))"

text \<open>
  \<open>findMatchingOption\<close> gives the index of the option found. \<open>===\<close> between an option's
  string and the value holds only of a string value.
\<close>

definition firstIndex :: "('a \<Rightarrow> bool) \<Rightarrow> 'a list \<Rightarrow> nat option" where
  "firstIndex P xs =
     (case filter (\<lambda>i. P (xs ! i)) [0..<length xs] of [] \<Rightarrow> None | i # _ \<Rightarrow> Some i)"

definition findMatchingOption :: "opt list \<Rightarrow> jsval \<Rightarrow> nat option" where
  "findMatchingOption os v =
     (case firstIndex (\<lambda>opt. v = JStr (opt_value opt)) os of
        Some i \<Rightarrow> Some i
      | None \<Rightarrow>
          (case firstIndex (\<lambda>opt. v = JStr (opt_label opt)) os of
             Some i \<Rightarrow> Some i
           | None \<Rightarrow>
               firstIndex
                 (\<lambda>opt. includes_str (toLowerCase (opt_label opt)) (toLowerCase (String_js v)))
                 os))"

definition fillSelectOne :: "elem \<Rightarrow> jsval \<Rightarrow> (exn + bool) \<times> elem" where
  "fillSelectOne field v =
     (case options field of
        None \<Rightarrow> (Inl (Error ''undefined is not iterable''), field)
      | Some os \<Rightarrow>
          (case findMatchingOption os v of
             Some i \<Rightarrow> (Inr True, field\<lparr>options := Some (set_selectedIndex i os)\<rparr>)
           | None \<Rightarrow> (Inr False, field)))"

text \<open>
  \<open>option.selected = true\<close> on a control that takes several selections marks this
  option only; on another \<open>select\<close> it also unmarks the rest.
\<close>

definition selectOption :: "bool \<Rightarrow> nat \<Rightarrow> opt list \<Rightarrow> opt list" where
  "selectOption many i os =
     (if many then os[i := (os ! i)\<lparr>selected := True\<rparr>] else set_selectedIndex i os)"

fun selectValues :: "bool \<Rightarrow> jsval list \<Rightarrow> opt list \<Rightarrow> bool \<Rightarrow> bool \<times> opt list" where
  "selectValues many [] os anySelected = (anySelected, os)"
| "selectValues many (v # vs) os anySelected =
     (case findMatchingOption os v of
        Some i \<Rightarrow> selectValues many vs (selectOption many i os) True
      | None \<Rightarrow> selectValues many vs os anySelected)"

definition fillSelectMultiple :: "elem \<Rightarrow> jsval \<Rightarrow> (exn + bool) \<times> elem" where
  "fillSelectMultiple field v =
     (let vs = (case v of JArr xs \<Rightarrow> xs | _ \<Rightarrow> [v]) in
      case options field of
        None \<Rightarrow> (Inl (Error ''undefined is not iterable''), field)
      | Some os \<Rightarrow>
          (let cleared = map (\<lambda>opt. opt\<lparr>selected := False\<rparr>) os;
               (anySelected, os') = selectValues (multiple field) vs cleared False
           in (Inr anySelected, field\<lparr>options := Some os'\<rparr>)))"

text \<open>
  \<open>getFieldLabel\<close> of the fill engine: the label that names the control by its id (asked
  for only when the id is not empty), else the label around it, else \<open>aria-label\<close>.
  An empty text counts as no label.
\<close>

definition getFieldLabel_filler :: "elem \<Rightarrow> exn + string" where
  "getFieldLabel_filler e =
     (case (if el_id e \<noteq> [] then labelFor e else Inr None) of
        Inl err \<Rightarrow> Inl err
      | Inr labelElement \<Rightarrow>
          (let lbl = orEmpty labelElement;
               lbl = (if lbl = [] then orEmpty (labelAround e) else lbl);
               lbl = (if lbl = [] then orEmpty (ariaLabel e) else lbl)
           in Inr lbl))"

definition positiveValues :: "string list" where
  "positiveValues = [''true'', ''yes'', ''on'', ''1'', ''checked'', ''selected'']"

definition shouldCheckBox :: "elem \<Rightarrow> jsval \<Rightarrow> exn + bool" where
  "shouldCheckBox field v =
     (case getFieldLabel_filler field of
        Inl err \<Rightarrow> Inl err
      | Inr l \<Rightarrow>
          (let lbl = toLowerCase l;
               fieldValue = toLowerCase (el_value field);
               checkValue = toLowerCase (String_js v)
           in if checkValue \<in> set positiveValues then Inr True
              else if fieldValue = checkValue \<or> includes_str lbl checkValue then Inr True
              else Inr False))"

definition fillCheckbox :: "elem \<Rightarrow> jsval \<Rightarrow> (exn + bool) \<times> elem" where
  "fillCheckbox field v =
     (case (case v of JBool b \<Rightarrow> Inr b | _ \<Rightarrow> shouldCheckBox field v) of
        Inl err \<Rightarrow> (Inl err, field)
      | Inr shouldCheck \<Rightarrow> (Inr True, field\<lparr>checked := shouldCheck\<rparr>))"

text \<open>
  \<open>fillRadio\<close> looks through the radio buttons that the selector with the name of the
  field finds, in document order; the label of a radio button is looked up only when
  its value is not the value given. \<open>radio.checked = true\<close> unchecks the other radio
  buttons of its group.
\<close>

fun findRadio :: "(nat \<Rightarrow> elem) \<Rightarrow> jsval \<Rightarrow> nat list \<Rightarrow> exn + nat option" where
  "findRadio store v [] = Inr None"
| "findRadio store v (r # rs) =
     (if v = JStr (el_value (store r)) then Inr (Some r)
      else case getFieldLabel_filler (store r) of
             Inl err \<Rightarrow> Inl err
           | Inr l \<Rightarrow>
               if includes_str (toLowerCase l) (toLowerCase (String_js v)) then Inr (Some r)
               else findRadio store v rs)"

definition checkRadio :: "nat \<Rightarrow> (nat \<Rightarrow> elem) \<Rightarrow> (nat \<Rightarrow> elem)" where
  "checkRadio r store =
     (\<lambda>x. if x = r then (store x)\<lparr>checked := True\<rparr>
          else if x \<in> set (radioButtonGroup (store r)) then (store x)\<lparr>checked := False\<rparr>
          else store x)"

definition fillRadio :: "(nat \<Rightarrow> elem) \<Rightarrow> nat \<Rightarrow> jsval \<Rightarrow> (exn + bool) \<times> (nat \<Rightarrow> elem)" where
  "fillRadio store field v =
     (case namedRadios (store field) of
        Inl err \<Rightarrow> (Inl err, store)
      | Inr radioGroup \<Rightarrow>
          (case findRadio store v radioGroup of
             Inl err \<Rightarrow> (Inl err, store)
           | Inr (Some r) \<Rightarrow> (Inr True, checkRadio r store)
           | Inr None \<Rightarrow> (Inr False, store)))"

subsection \<open>\<open>fillByType\<close>\<close>

definition onElem ::
  "(nat \<Rightarrow> elem) \<Rightarrow> nat \<Rightarrow> bool \<times> elem \<Rightarrow> (exn + bool) \<times> (nat \<Rightarrow> elem)" where
  "onElem store field r = (Inr (fst r), store(field := snd r))"

definition onElemE ::
  "(nat \<Rightarrow> elem) \<Rightarrow> nat \<Rightarrow> (exn + bool) \<times> elem \<Rightarrow> (exn + bool) \<times> (nat \<Rightarrow> elem)" where
  "onElemE store field r = (fst r, store(field := snd r))"

definition fillByType ::
  "(string \<Rightarrow> jsdate) \<Rightarrow> (nat \<Rightarrow> elem) \<Rightarrow> nat \<Rightarrow> string \<Rightarrow> jsval
     \<Rightarrow> (exn + bool) \<times> (nat \<Rightarrow> elem)" where
  "fillByType parse store field ty v =
     (if ty \<in> set [''text'', ''email'', ''tel'', ''url'', ''search'']
      then onElem store field (fillTextInput (store field) v)
      else if ty = ''password'' then onElem store field (fillPasswordInput (store field) v)
      else if ty \<in> set [''number'', ''range'']
      then onElem store field (fillNumberInput (store field) v)
      else if ty \<in> set [''date'', ''datetime-local'', ''time'', ''month'', ''week'']
      then onElem store field (fillDateTimeInput parse (store field) ty v)
      else if ty = ''color'' then onElem store field (fillColorInput (store field) v)
      else if ty = ''textarea'' then onElem store field (fillTextarea (store field) v)
      else if ty = ''select-one'' then onElemE store field (fillSelectOne (store field) v)
      else if ty = ''select-multiple''
      then onElemE store field (fillSelectMultiple (store field) v)
      else if ty = ''checkbox'' then onElemE store field (fillCheckbox (store field) v)
      else if ty = ''radio'' then fillRadio store field v
      else (Inr False, store))"

subsection \<open>Filling one field\<close>

text \<open>
  The state the fill engine works on: the controls, the references of the controls of
  the document in document order, the events dispatched so far, the engine's own
  \<open>filledFields\<close> and \<open>errors\<close>, and the state of the source of values (the cache of
  the field mapper, or the randomness of the generator). Timers are not modelled: the
  delayed \<open>blur\<close> event and the delayed removal of the feedback classes happen after
  the calls described here.
\<close>

record 'm world =
  controls :: "nat \<Rightarrow> elem"
  document :: "nat list"
  dispatched :: "(nat \<times> string) list"
  filledFields :: "descriptor list"
  errors :: "string list"
  source :: 'm

definition feedbackClasses :: "string list" where
  "feedbackClasses = [''form-fill-success'', ''form-fill-error'', ''form-fill-processing'']"

definition addVisualFeedback :: "string \<Rightarrow> elem \<Rightarrow> elem" where
  "addVisualFeedback status field =
     (let field = classList_remove feedbackClasses field in
      if status = ''filled'' then classList_add ''form-fill-success'' field
      else if status = ''error'' then classList_add ''form-fill-error'' field
      else if status = ''processing'' then classList_add ''form-fill-processing'' field
      else field)"

definition triggerFieldEvents :: "nat \<Rightarrow> (nat \<times> string) list \<Rightarrow> (nat \<times> string) list" where
  "triggerFieldEvents field evs = evs @ [(field, ''input''), (field, ''change''), (field, ''focus'')]"

text \<open>
  A source of values answers a descriptor with a value or throws; it may read the
  controls and it has a state of its own. \<open>fillField\<close> asks the field mapper
  (the method \<open>mapValueToField\<close> of \<open>fieldMapper\<close>, with the user's data), \<open>fillFieldWithFakeData\<close> asks the
  generator (\<open>generateFakeDataForField\<close>); the rest of the two methods is the same text,
  modelled once by \<open>fillFieldFrom\<close>.
\<close>

type_synonym 'm valueSource = "'m \<Rightarrow> (nat \<Rightarrow> elem) \<Rightarrow> descriptor \<Rightarrow> (exn + jsval) \<times> 'm"

text \<open>
  The \<open>catch\<close> block of \<open>fillField\<close>. When the message of what was caught cannot be
  read, the \<open>TypeError\<close> leaves the method before anything is recorded.
\<close>

definition caught :: "descriptor \<Rightarrow> exn \<Rightarrow> 'm world \<Rightarrow> (exn + bool) \<times> 'm world" where
  "caught fd err w =
     (case message err of
        Inl typeError \<Rightarrow> (Inl typeError, w)
      | Inr msg \<Rightarrow>
          (Inr False,
           w\<lparr>errors := errors w @ [''Error filling field '' @ fd_name fd @ '': '' @ msg],
             controls := (controls w)
               (element fd := addVisualFeedback ''error'' (controls w (element fd)))\<rparr>))"

text \<open>
  The result is \<open>Inr\<close> of the boolean the method returns, or \<open>Inl\<close> of the exception
  that leaves it.
\<close>

definition fillFieldFrom ::
  "(string \<Rightarrow> jsdate) \<Rightarrow> 'm valueSource \<Rightarrow> descriptor \<Rightarrow> 'm world
     \<Rightarrow> (exn + bool) \<times> 'm world" where
  "fillFieldFrom parse src fd w =
     (let field = element fd; ty = fd_type fd in
      if \<not> fillable fd
      then (Inr False, w\<lparr>errors := errors w @ [''Cannot fill field: '' @ reason fd]\<rparr>)
      else
        case src (source w) (controls w) fd of
          (Inl err, m) \<Rightarrow> caught fd err (w\<lparr>source := m\<rparr>)
        | (Inr v, m) \<Rightarrow>
            (let w = w\<lparr>source := m\<rparr> in
             if v = JNull \<or> v = JUndefined then (Inr False, w)
             else
               case fillByType parse (controls w) field ty v of
                 (Inl err, store) \<Rightarrow> caught fd err (w\<lparr>controls := store\<rparr>)
               | (Inr success, store) \<Rightarrow>
                   if success
                   then (Inr True,
                         w\<lparr>controls := store(field := addVisualFeedback ''filled'' (store field)),
                           filledFields := filledFields w @ [fd],
                           dispatched := triggerFieldEvents field (dispatched w)\<rparr>)
                   else (Inr False, w\<lparr>controls := store\<rparr>)))"

definition fillField ::
  "(string \<Rightarrow> jsdate) \<Rightarrow> ('m \<Rightarrow> (nat \<Rightarrow> elem) \<Rightarrow> descriptor \<Rightarrow> 'u \<Rightarrow> (exn + jsval) \<times> 'm)
     \<Rightarrow> descriptor \<Rightarrow> 'u \<Rightarrow> 'm world \<Rightarrow> (exn + bool) \<times> 'm world" where
  "fillField parse fieldMapper fd userData w =
     fillFieldFrom parse (\<lambda>m store d. fieldMapper m store d userData) fd w"

definition fillFieldWithFakeData ::
  "(string \<Rightarrow> jsdate) \<Rightarrow> 'm valueSource \<Rightarrow> descriptor \<Rightarrow> 'm world
     \<Rightarrow> (exn + bool) \<times> 'm world" where
  "fillFieldWithFakeData parse generateFakeDataForField fd w =
     fillFieldFrom parse generateFakeDataForField fd w"

subsection \<open>Filling all fields\<close>

text \<open>
  The options of a batch. A callback is the caller's code: it returns (\<open>None\<close>) or
  throws (\<open>Some\<close> of the exception). \<open>delay\<close> only spaces the attempts in time.
\<close>

record progress =
  p_total :: nat
  p_completed :: nat
  p_current :: descriptor
  p_success :: bool

record fill_options =
  delay :: int
  skipErrors :: bool
  onProgress :: "(progress \<Rightarrow> exn option) option"
  onFieldFilled :: "(descriptor \<Rightarrow> bool \<Rightarrow> exn option) option"

definition defaultOptions :: fill_options where
  "defaultOptions = \<lparr>delay = 50, skipErrors = True, onProgress = None, onFieldFilled = None\<rparr>"

record batch =
  b_total :: nat
  b_filled :: nat
  b_errors :: nat
  b_success :: bool

definition call_onFieldFilled :: "fill_options \<Rightarrow> descriptor \<Rightarrow> bool \<Rightarrow> exn option" where
  "call_onFieldFilled opts fd ok = (case onFieldFilled opts of None \<Rightarrow> None | Some f \<Rightarrow> f fd ok)"

definition call_onProgress :: "fill_options \<Rightarrow> progress \<Rightarrow> exn option" where
  "call_onProgress opts p = (case onProgress opts of None \<Rightarrow> None | Some f \<Rightarrow> f p)"

text \<open>
  One round of the loop ends in one of three ways: the loop goes on, the loop is left
  by \<open>break\<close>, or an exception leaves the method.
\<close>

datatype 'm outcome = Continue nat "'m world" | Break nat "'m world" | Throw exn "'m world"

text \<open>
  The \<open>catch\<close> block of the loop. Nothing catches what is thrown in it: the
  \<open>TypeError\<close> of a message that cannot be read, and what the callback throws.
\<close>

definition catchBlock ::
  "fill_options \<Rightarrow> descriptor \<Rightarrow> exn \<Rightarrow> nat \<Rightarrow> 'm world \<Rightarrow> 'm outcome" where
  "catchBlock opts fd err completedCount w =
     (case message err of
        Inl typeError \<Rightarrow> Throw typeError w
      | Inr msg \<Rightarrow>
          (let w = w\<lparr>errors := errors w @
                      [''Error processing field '' @ fd_name fd @ '': '' @ msg]\<rparr> in
           case call_onFieldFilled opts fd False of
             Some err' \<Rightarrow> Throw err' w
           | None \<Rightarrow>
               if \<not> skipErrors opts then Break completedCount w else Continue completedCount w))"

text \<open>The rest of the \<open>try\<close> block after the attempt: the progress callback.\<close>

definition reportProgress ::
  "fill_options \<Rightarrow> nat \<Rightarrow> descriptor \<Rightarrow> bool \<Rightarrow> nat \<Rightarrow> 'm world \<Rightarrow> 'm outcome" where
  "reportProgress opts n fd ok completedCount w =
     (case call_onProgress opts
             \<lparr>p_total = n, p_completed = completedCount, p_current = fd, p_success = ok\<rparr> of
        Some err \<Rightarrow> catchBlock opts fd err completedCount w
      | None \<Rightarrow> Continue completedCount w)"

definition markProcessing :: "descriptor \<Rightarrow> 'm world \<Rightarrow> 'm world" where
  "markProcessing fd w =
     w\<lparr>controls := (controls w)
          (element fd := addVisualFeedback ''processing'' (controls w (element fd)))\<rparr>"

definition processField ::
  "(string \<Rightarrow> jsdate) \<Rightarrow> 'm valueSource \<Rightarrow> fill_options \<Rightarrow> nat \<Rightarrow> descriptor \<Rightarrow> nat
     \<Rightarrow> 'm world \<Rightarrow> 'm outcome" where
  "processField parse src opts n fd completedCount w =
     (case fillFieldFrom parse src fd (markProcessing fd w) of
        (Inl err, w) \<Rightarrow> catchBlock opts fd err completedCount w
      | (Inr ok, w) \<Rightarrow>
          if ok
          then (case call_onFieldFilled opts fd True of
                  Some err \<Rightarrow> catchBlock opts fd err (Suc completedCount) w
                | None \<Rightarrow> reportProgress opts n fd ok (Suc completedCount) w)
          else if \<not> skipErrors opts then Break completedCount w
          else reportProgress opts n fd ok completedCount w)"

fun fillLoop ::
  "(string \<Rightarrow> jsdate) \<Rightarrow> 'm valueSource \<Rightarrow> fill_options \<Rightarrow> nat \<Rightarrow> descriptor list \<Rightarrow> nat
     \<Rightarrow> 'm world \<Rightarrow> (exn + nat) \<times> 'm world" where
  "fillLoop parse src opts n [] completedCount w = (Inr completedCount, w)"
| "fillLoop parse src opts n (fd # fds) completedCount w =
     (case processField parse src opts n fd completedCount w of
        Continue c w' \<Rightarrow> fillLoop parse src opts n fds c w'
      | Break c w' \<Rightarrow> (Inr c, w')
      | Throw err w' \<Rightarrow> (Inl err, w'))"

text \<open>
  \<open>fillAllFields\<close> and \<open>fillAllFieldsWithFakeData\<close> are the same text around the two
  single-field methods. The result is \<open>Inl\<close> of the exception when one leaves the
  method, and \<open>Inr\<close> of the summary it returns otherwise.
\<close>

definition fillAllFrom ::
  "(string \<Rightarrow> jsdate) \<Rightarrow> 'm valueSource \<Rightarrow> descriptor list \<Rightarrow> fill_options \<Rightarrow> 'm world
     \<Rightarrow> (exn + batch) \<times> 'm world" where
  "fillAllFrom parse src fieldDescriptors opts w =
     (let w = w\<lparr>filledFields := [], errors := []\<rparr>;
          fillableFields = filter fillable fieldDescriptors
      in case fillLoop parse src opts (length fillableFields) fillableFields 0 w of
           (Inl err, w') \<Rightarrow> (Inl err, w')
         | (Inr completedCount, w') \<Rightarrow>
             (Inr \<lparr>b_total = length fillableFields, b_filled = completedCount,
                   b_errors = length (errors w'), b_success = (completedCount > 0)\<rparr>, w'))"

definition fillAllFields ::
  "(string \<Rightarrow> jsdate) \<Rightarrow> ('m \<Rightarrow> (nat \<Rightarrow> elem) \<Rightarrow> descriptor \<Rightarrow> 'u \<Rightarrow> (exn + jsval) \<times> 'm)
     \<Rightarrow> descriptor list \<Rightarrow> 'u \<Rightarrow> fill_options \<Rightarrow> 'm world \<Rightarrow> (exn + batch) \<times> 'm world" where
  "fillAllFields parse fieldMapper fieldDescriptors userData opts w =
     fillAllFrom parse (\<lambda>m store d. fieldMapper m store d userData) fieldDescriptors opts w"


section \<open>The synthetic data generator (fake-data-generator.js)\<close>

text \<open>
  \<open>Math.random()\<close> is modelled by the stream of its results, \<open>rs k\<close> being the k-th one,
  a rational \<open>r\<close> with \<open>0 \<le> r < 1\<close>.
\<close>

definition randomChoice :: "'a list \<Rightarrow> rat \<Rightarrow> 'a" where
  "randomChoice array r = array ! nat \<lfloor>r * of_nat (length array)\<rfloor>"

definition randomInt :: "int \<Rightarrow> int \<Rightarrow> rat \<Rightarrow> int" where
  "randomInt lo hi r = \<lfloor>r * of_int (hi - lo + 1)\<rfloor> + lo"

definition prefixes :: "string list" where
  "prefixes = [''4'', ''51'', ''52'', ''53'', ''54'', ''55'']"

text \<open>The loop \<open>while (number.length < 15) number += this.randomInt(0, 9)\<close>.\<close>

function remainingDigits :: "(nat \<Rightarrow> rat) \<Rightarrow> nat \<Rightarrow> string \<Rightarrow> string" where
  "remainingDigits rs k number =
     (if length number < 15
      then remainingDigits rs (Suc k) (number @ intToString (randomInt 0 9 (rs k)))
      else number)"
  by pat_completeness auto
termination
proof (relation "measure (\<lambda>(rs, k, number). 15 - length number)")
  show "wf (measure (\<lambda>(rs, k, number). 15 - length number))" by simp
next
  fix rs :: "nat \<Rightarrow> rat" and k :: nat and number :: string
  assume short: "length number < 15"
  have nonempty: "decimalNat n \<noteq> []" for n
    by (subst decimalNat.simps) simp
  have "intToString (randomInt 0 9 (rs k)) \<noteq> []"
    by (simp add: intToString_def nonempty)
  with short
  show "((rs, Suc k, number @ intToString (randomInt 0 9 (rs k))), (rs, k, number))
          \<in> measure (\<lambda>(rs, k, number). 15 - length number)"
    by (cases "intToString (randomInt 0 9 (rs k))") simp_all
qed

text \<open>\<open>parseInt\<close> of a one-character string.\<close>

definition parseInt_char :: "char \<Rightarrow> jsnum" where
  "parseInt_char c = (if isDigit c then Num (int (digitValue c)) else NaN)"

text \<open>
  The check-digit loop runs over the 15 digits from the last to the first; the list
  given here is the number reversed. \<open>alternate\<close> starts false.
\<close>

fun checkSum :: "string \<Rightarrow> bool \<Rightarrow> jsnum \<Rightarrow> jsnum" where
  "checkSum [] alternate acc = acc"
| "checkSum (c # cs) alternate acc =
     (let n = parseInt_char c;
          n = (if alternate
               then (let n = num_mul n (Num 2)
                     in if num_lt (Num 9) n then num_add (num_rem n (Num 10)) (Num 1) else n)
               else n)
      in checkSum cs (\<not> alternate) (num_add acc n))"

definition generateCreditCardNumber :: "(nat \<Rightarrow> rat) \<Rightarrow> string" where
  "generateCreditCardNumber rs =
     (let prefix = randomChoice prefixes (rs 0);
          number = remainingDigits rs 1 prefix;
          acc = checkSum (rev number) False (Num 0);
          checkDigit = num_rem (num_sub (Num 10) (num_rem acc (Num 10))) (Num 10)
      in number @ numToString checkDigit)"

text \<open>
  The Luhn checksum as the specification words it: counting from the right, every
  second digit is doubled (9 is subtracted when the double exceeds 9), and the sum of
  all digits is divisible by 10.
\<close>

fun luhnTotal :: "string \<Rightarrow> bool \<Rightarrow> nat" where
  "luhnTotal [] second = 0"
| "luhnTotal (c # cs) second =
     (let d = digitValue c;
          v = (if second then (if 2 * d > 9 then 2 * d - 9 else 2 * d) else d)
      in v + luhnTotal cs (\<not> second))"

definition passesLuhn :: "string \<Rightarrow> bool" where
  "passesLuhn s = (list_all isDigit s \<and> luhnTotal (rev s) False mod 10 = 0)"

section \<open>Notions used in the statements\<close>

text \<open>A text input as the page creates it, without attributes, rendered and visible.\<close>

definition newInput :: elem where
  "newInput =
     \<lparr>tagName = ''INPUT'', el_type = ''text'', name = [], el_id = [], placeholder = [],
      className = [], required = False, multiple = False, el_value = [], checked = False,
      disabled = False, readOnly = False, el_min = [], el_max = [], step = [],
      maxLength = - 1, options = None, offsetParentNull = False, style_display = [],
      style_visibility = [], style_opacity = [], computed_display = ''inline-block'',
      computed_visibility = ''visible'', offsetHeight = 21, offsetWidth = 153,
      ancestorClasses = [], labelFor = Inr None, labelAround = None, ariaLabel = None,
      ariaLabelledBy = None, namedRadios = Inr [], radioButtonGroup = []\<rparr>"

text \<open>The descriptor that \<open>createFieldDescriptor\<close> gives such an input.\<close>

definition describedInput :: "nat \<Rightarrow> descriptor" where
  "describedInput r =
     \<lparr>element = r, fd_type = ''text'', subtype = ''text'', fd_name = [], fd_id = [],
      label = [], fd_placeholder = [], fd_required = False, fd_value = JStr [],
      fillable = True, reason = [], category = ''text'', fieldSubtype = ''text'',
      confidence = 6/10, detectedFrom = ''heuristic''\<rparr>"

text \<open>A fresh fill engine on a page.\<close>

definition freshWorld :: "(nat \<Rightarrow> elem) \<Rightarrow> nat list \<Rightarrow> 'm \<Rightarrow> 'm world" where
  "freshWorld store doc m =
     \<lparr>controls = store, document = doc, dispatched = [], filledFields = [], errors = [],
      source = m\<rparr>"


definition quietCallbacks :: "fill_options \<Rightarrow> bool" where
  "quietCallbacks opts =
     ((\<forall>fd ok. call_onFieldFilled opts fd ok = None) \<and> (\<forall>p. call_onProgress opts p = None))"

text \<open>
  Every field of a list is filled with success, one after the other, each marked as
  being processed first as the loop does; the result is the state reached.
\<close>

fun fillsAll ::
  "(string \<Rightarrow> jsdate) \<Rightarrow> 'm valueSource \<Rightarrow> descriptor list \<Rightarrow> 'm world \<Rightarrow> 'm world option" where
  "fillsAll parse src [] w = Some w"
| "fillsAll parse src (fd # fds) w =
     (case fillFieldFrom parse src fd (markProcessing fd w) of
        (Inr True, w') \<Rightarrow> fillsAll parse src fds w'
      | _ \<Rightarrow> None)"








text \<open>
  A descriptor written by hand, as the unit tests of the fill engine do: the control,
  its type, its name and whether it is fillable.
\<close>

definition plainDescriptor :: "nat \<Rightarrow> string \<Rightarrow> string \<Rightarrow> bool \<Rightarrow> descriptor" where
  "plainDescriptor r ty nm ok =
     \<lparr>element = r, fd_type = ty, subtype = ty, fd_name = nm, fd_id = [], label = [],
      fd_placeholder = [], fd_required = False, fd_value = JStr [], fillable = ok,
      reason = [], category = [], fieldSubtype = [], confidence = 0, detectedFrom = []\<rparr>"







text \<open>A mapper that answers by the name of the field, and a number control for an age.\<close>

definition nameMapper :: "unit \<Rightarrow> (nat \<Rightarrow> elem) \<Rightarrow> descriptor \<Rightarrow> unit \<Rightarrow> (exn + jsval) \<times> unit" where
  "nameMapper m store fd u =
     (if fd_name fd = ''firstName'' then (Inr (JStr ''John''), m)
      else if fd_name fd = ''age'' then (Inr (JStr ''150''), m)
      else if fd_name fd = ''lastName'' then (Inr (JStr ''Doe''), m)
      else (Inr JNull, m))"

definition ageField :: elem where
  "ageField = newInput\<lparr>el_type := ''number'', el_min := ''0'', el_max := ''120'', step := ''1''\<rparr>"

text \<open>
  The label of a control as the fill engine reads it when the look-up by the id does
  not throw: the first text that is not empty among the label naming the id, the label
  around the control and \<open>aria-label\<close>. The look-up throws when the control has an id
  and the selector built from it is refused.
\<close>

definition labelOf :: "elem \<Rightarrow> string" where
  "labelOf e =
     (case filter (\<lambda>t. t \<noteq> [])
             [case labelFor e of Inr (Some t) \<Rightarrow> (if el_id e = [] then [] else t) | _ \<Rightarrow> [],
              case labelAround e of Some t \<Rightarrow> t | None \<Rightarrow> [],
              case ariaLabel e of Some t \<Rightarrow> t | None \<Rightarrow> []] of
        [] \<Rightarrow> []
      | t # _ \<Rightarrow> t)"

definition labelLookupThrows :: "elem \<Rightarrow> exn \<Rightarrow> bool" where
  "labelLookupThrows e err = (el_id e \<noteq> [] \<and> labelFor e = Inl err)"

text \<open>
  The \<open>SyntaxError\<close> of \<open>querySelector\<close> for a selector it refuses. A checkbox whose id
  is \<open>a"b\<close>: the selector \<open>label[for="a"b"]\<close> is refused. A checkbox with a label.
\<close>

definition notValidSelector :: "string \<Rightarrow> exn" where
  "notValidSelector sel = Error (sel @ '' is not a valid selector.'')"

definition quotedBox :: elem where
  "quotedBox =
     newInput\<lparr>el_type := ''checkbox'', el_value := ''on'', name := ''agree'',
       el_id := ''a'' @ [CHR 0x22] @ ''b'',
       labelFor := Inl (notValidSelector
         (''label[for='' @ [CHR 0x22] @ ''a'' @ [CHR 0x22] @ ''b'' @ [CHR 0x22] @ '']''))\<rparr>"

definition labelledBox :: elem where
  "labelledBox =
     newInput\<lparr>el_type := ''checkbox'', el_value := ''on'', name := ''news'', el_id := ''news'',
       labelFor := Inr (Some ''Subscribe to the Newsletter'')\<rparr>"

text \<open>
  The kinds the claim calls exact, and the category of each.
\<close>

definition exactKinds :: "string list" where
  "exactKinds = [''email'', ''date'', ''time'', ''number'', ''url'', ''color'']"

definition kindCategory :: "string \<Rightarrow> string" where
  "kindCategory kind =
     (if kind = ''email'' then ''personal''
      else if kind = ''date'' \<or> kind = ''time'' then ''datetime''
      else if kind = ''number'' then ''number''
      else ''web'')"

text \<open>
  The rules of the classifier as a table, in their order: the kind a rule names, if it
  names one, whether its text pattern matches the text, and its verdict (category,
  subtype, confidence). \<open>textVerdict\<close> is the verdict of the first rule whose text pattern
  matches, \<open>kindVerdict\<close> the verdict of the rule that names a kind, and \<open>earlierText\<close>
  says that the text pattern of a rule matches that stands before the rule naming the
  kind (before the end of the table, for a kind that no rule names). \<open>noTextVerdict\<close>
  is the verdict left when no rule applies.
\<close>

definition classifierRules :: "string \<Rightarrow> (string option \<times> bool \<times> string \<times> string \<times> rat) list" where
  "classifierRules txt =
     [(None, matches txt re_firstName, ''personal'', ''firstName'', 9/10),
      (None, matches txt re_lastName, ''personal'', ''lastName'', 9/10),
      (None, matches txt re_fullName \<and> \<not> matches txt re_notPersonName,
         ''personal'', ''fullName'', 8/10),
      (Some ''email'', matches txt re_email, ''personal'', ''email'', 95/100),
      (None, matches txt re_phone, ''personal'', ''phone'', 9/10),
      (None, matches txt re_username, ''personal'', ''username'', 85/100),
      (Some ''password'', matches txt re_password, ''personal'', ''password'', 95/100),
      (None, matches txt re_address, ''address'',
         (if matches txt re_address2 then ''address2'' else ''address1''), 9/10),
      (None, matches txt re_city, ''address'', ''city'', 9/10),
      (None, matches txt re_state, ''address'', ''state'', 9/10),
      (None, matches txt re_zip, ''address'', ''zipCode'', 9/10),
      (None, matches txt re_country, ''address'', ''country'', 9/10),
      (None, matches txt re_company, ''work'', ''company'', 85/100),
      (None, matches txt re_job, ''work'', ''jobTitle'', 85/100),
      (Some ''date'', matches txt re_date, ''datetime'',
         (if matches txt re_birth then ''birthDate'' else ''date''), 9/10),
      (Some ''time'', matches txt re_time, ''datetime'', ''time'', 9/10),
      (Some ''number'', matches txt re_number, ''number'',
         (if matches txt re_age then ''age''
          else if matches txt re_price then ''price''
          else if matches txt re_quantity then ''quantity''
          else ''number''), 8/10),
      (Some ''url'', matches txt re_url, ''web'', ''url'', 9/10),
      (Some ''color'', matches txt re_color, ''web'', ''color'', 9/10),
      (None, matches txt re_creditCard, ''financial'', ''creditCard'', 9/10),
      (None, matches txt re_cvv, ''financial'', ''cvv'', 9/10),
      (None, matches txt re_ssn, ''financial'', ''ssn'', 9/10),
      (None, matches txt re_paragraph, ''text'', ''paragraph'', 8/10)]"

definition ruleKind :: "string option \<times> bool \<times> string \<times> string \<times> rat \<Rightarrow> string option" where
  "ruleKind r = fst r"

definition ruleText :: "string option \<times> bool \<times> string \<times> string \<times> rat \<Rightarrow> bool" where
  "ruleText r = fst (snd r)"

definition ruleVerdict :: "string option \<times> bool \<times> string \<times> string \<times> rat \<Rightarrow> string \<times> string \<times> rat" where
  "ruleVerdict r = snd (snd r)"

definition textVerdict :: "string \<Rightarrow> (string \<times> string \<times> rat) option" where
  "textVerdict txt = map_option ruleVerdict (find ruleText (classifierRules txt))"

definition kindVerdict :: "string \<Rightarrow> string \<Rightarrow> (string \<times> string \<times> rat) option" where
  "kindVerdict ty txt =
     map_option ruleVerdict (find (\<lambda>r. ruleKind r = Some ty) (classifierRules txt))"

definition earlierText :: "string \<Rightarrow> string \<Rightarrow> bool" where
  "earlierText ty txt =
     list_ex ruleText (takeWhile (\<lambda>r. ruleKind r \<noteq> Some ty) (classifierRules txt))"

definition noTextVerdict :: "elem \<Rightarrow> string \<Rightarrow> string \<times> string \<times> rat" where
  "noTextVerdict e ty =
     (if tagName e = ''TEXTAREA'' then (''text'', ''paragraph'', 8/10)
      else if ty = ''text'' \<or> ty = [] then (''text'', ''text'', 6/10)
      else (''general'', ty, 5/10))"

text \<open>
  The weeks of the ISO calendar, on day numbers. Week 1 of a year is the week, from
  Monday to Sunday, that holds the first Thursday of the year. A day belongs to the
  week-numbering year \<open>y\<close> when it lies from the Monday of week 1 of \<open>y\<close> up to the
  Monday of week 1 of \<open>y + 1\<close>, and its week number counts the weeks from the first.
\<close>

definition firstThursday :: "int \<Rightarrow> int" where
  "firstThursday y = (let j = DayFromYear y in j + (4 - getUTCDay j) mod 7)"

definition weekOneMonday :: "int \<Rightarrow> int" where
  "weekOneMonday y = firstThursday y - 3"

definition inWeekYear :: "int \<Rightarrow> int \<Rightarrow> bool" where
  "inWeekYear d y = (weekOneMonday y \<le> d \<and> d < weekOneMonday (y + 1))"

definition isoWeek :: "int \<Rightarrow> int \<Rightarrow> int" where
  "isoWeek y d = (d - weekOneMonday y) div 7 + 1"

text \<open>The day number of the local calendar day of a date.\<close>

definition calendarDay :: "date_obs \<Rightarrow> int" where
  "calendarDay date = MakeDay (getFullYear date) (getMonth date) (getDate date)"

definition twoDigitYear :: "int \<Rightarrow> bool" where
  "twoDigitYear y = (0 \<le> y \<and> y \<le> 99)"

text \<open>
  Midnight of 15 January 2024 and of 30 December 2024 on a host whose time zone is UTC,
  and a week control.
\<close>

definition monday15 :: date_obs where
  "monday15 =
     \<lparr>getTime = 1705276800000, getFullYear = 2024, getMonth = 0, getDate = 15,
      toISOString = ''2024-01-15T00:00:00.000Z'',
      toTimeString = ''00:00:00 GMT+0000 (Coordinated Universal Time)'',
      toDateText = ''Mon Jan 15 2024 00:00:00 GMT+0000 (Coordinated Universal Time)''\<rparr>"

definition monday30 :: date_obs where
  "monday30 =
     \<lparr>getTime = 1735516800000, getFullYear = 2024, getMonth = 11, getDate = 30,
      toISOString = ''2024-12-30T00:00:00.000Z'',
      toTimeString = ''00:00:00 GMT+0000 (Coordinated Universal Time)'',
      toDateText = ''Mon Dec 30 2024 00:00:00 GMT+0000 (Coordinated Universal Time)''\<rparr>"

definition weekField :: elem where
  "weekField = newInput\<lparr>el_type := ''week''\<rparr>"

section \<open>Properties of the scanner\<close>

lemma createFieldDescriptor_fillable:
  "createFieldDescriptor store r = Inr d \<Longrightarrow> fillable d = isFieldFillable (store r)"
  by (auto simp: createFieldDescriptor_def Let_def split: sum.splits if_splits)

lemma describeAll_fillable:
  "describeAll store rs = Inr ds \<Longrightarrow> map fillable ds = map (\<lambda>r. isFieldFillable (store r)) rs"
proof (induction rs arbitrary: ds)
  case Nil
  then show ?case by simp
next
  case (Cons r rs)
  then show ?case
    by (auto simp: createFieldDescriptor_fillable split: sum.splits)
qed

lemma protected_count_zero:
  "detectFormFields store rt det = (Inr fds, det') \<Longrightarrow>
   detectedFields det' = fds \<and> list_all fillable fds \<and> getProtectedFieldsCount det' = 0"
  by (cases rt)
     (auto simp: getProtectedFieldsCount_def list_all_iff split: prod.splits sum.splits)

lemma isFieldFillable_newInput: "isFieldFillable newInput"
  by (simp add: isFieldFillable_def isProtectedField_def newInput_def classList_def
      captchaClasses_def honeypotNames_def toLowerCase_def)

lemma isFieldFillable_disabled: "\<not> isFieldFillable (newInput\<lparr>disabled := True\<rparr>)"
  by (simp add: isFieldFillable_def)

lemma no_pattern_in_blanks:
  "list_all (\<lambda>re. \<not> matches ''    '' re)
      [re_firstName, re_lastName, re_fullName, re_email, re_phone, re_username, re_password,
       re_address, re_city, re_state, re_zip, re_country, re_company, re_job, re_date, re_time,
       re_number, re_url, re_color, re_creditCard, re_cvv, re_ssn, re_paragraph]"
  by code_simp

lemma classifyField_newInput:
  "classifyField (newInput\<lparr>disabled := b\<rparr>) =
     Inr \<lparr>c_category = ''text'', c_subtype = ''text'', originalType = ''text'',
          c_confidence = 6/10, c_detectedFrom = ''heuristic''\<rparr>"
proof -
  have lbl: "getFieldLabel (newInput\<lparr>disabled := b\<rparr>) = Inr []"
    by (simp add: getFieldLabel_def newInput_def orEmpty_def)
  have low4: "toLowerCase ''    '' = ''    ''" by code_simp
  have blanks: "allText (newInput\<lparr>disabled := b\<rparr>) [] = ''    ''"
    by (simp add: allText_def newInput_def low4)
  have low: "toLowerCase ''text'' = ''text''" by code_simp
  have src: "getDetectionSource ''    '' ''text'' = ''heuristic''" by code_simp
  have rules: "classifyRules (newInput\<lparr>disabled := b\<rparr>) ''text'' ''    '' = (''text'', ''text'', 6/10)"
    using no_pattern_in_blanks by (simp add: classifyRules_def newInput_def)
  have ty: "classType (newInput\<lparr>disabled := b\<rparr>) = ''text''"
    by (simp add: classType_def newInput_def low)
  show ?thesis
    by (simp add: classifyField_def lbl blanks ty rules src Let_def)
qed

lemma createFieldDescriptor_newInput:
  assumes "store r = newInput\<lparr>disabled := b\<rparr>"
  shows "createFieldDescriptor store r =
     Inr (if b then (describedInput r)\<lparr>fillable := False, reason := ''Field is disabled''\<rparr>
          else describedInput r)"
proof -
  have lbl: "getFieldLabel (newInput\<lparr>disabled := c\<rparr>) = Inr []" for c
    by (simp add: getFieldLabel_def newInput_def orEmpty_def)
  have fl: "isFieldFillable (newInput\<lparr>disabled := c\<rparr>) = (\<not> c)" for c
    using isFieldFillable_newInput isFieldFillable_disabled
    by (cases c) (simp_all add: newInput_def)
  have tag: "toLowerCase ''INPUT'' = ''input''" by code_simp
  have attrs: "getFieldType (newInput\<lparr>disabled := c\<rparr>) = ''text''"
    "getFieldValue (newInput\<lparr>disabled := c\<rparr>) = JStr []" for c
    by (simp_all add: getFieldType_def getFieldValue_def newInput_def tag Let_def)
  have why: "getUnfillableReason (newInput\<lparr>disabled := True\<rparr>) = ''Field is disabled''"
    by (simp add: getUnfillableReason_def)
  have props: "name (newInput\<lparr>disabled := c\<rparr>) = []" "el_id (newInput\<lparr>disabled := c\<rparr>) = []"
    "placeholder (newInput\<lparr>disabled := c\<rparr>) = []" "\<not> required (newInput\<lparr>disabled := c\<rparr>)"
    "el_type (newInput\<lparr>disabled := c\<rparr>) = ''text''" for c
    by (simp_all add: newInput_def)
  show ?thesis
    by (cases b)
       (simp_all add: createFieldDescriptor_def assms classifyField_newInput lbl fl attrs
          why props describedInput_def Let_def)
qed

text \<open>
  Claim C3 holds in its first half only: the scan returns fillable descriptors and
  nothing else. The rejected descriptors are not kept, so \<open>getProtectedFieldsCount\<close> is
  0 after every scan that returns (\<open>protected_count_zero\<close>). On a page with one plain
  input and one disabled input, one of the two candidates fails the filter, the scan
  returns the descriptor of the plain input, and the count of protected fields is 0,
  not 1.
\<close>

theorem protected_count_is_lost:
  "describeAll (\<lambda>r. if r = 0 then newInput else newInput\<lparr>disabled := True\<rparr>) [0, 1]
     = Inr [describedInput 0,
            (describedInput 1)\<lparr>fillable := False, reason := ''Field is disabled''\<rparr>]
   \<and> detectFormFields (\<lambda>r. if r = 0 then newInput else newInput\<lparr>disabled := True\<rparr>)
          (Root [0, 1] []) \<lparr>detectedFields = []\<rparr>
     = (Inr [describedInput 0], \<lparr>detectedFields = [describedInput 0]\<rparr>)
   \<and> getProtectedFieldsCount
        (snd (detectFormFields (\<lambda>r. if r = 0 then newInput else newInput\<lparr>disabled := True\<rparr>)
                (Root [0, 1] []) \<lparr>detectedFields = []\<rparr>)) = 0"
proof -
  let ?S = "\<lambda>r::nat. if r = 0 then newInput else newInput\<lparr>disabled := True\<rparr>"
  have d0: "createFieldDescriptor ?S 0 = Inr (describedInput 0)"
    using createFieldDescriptor_newInput[where store = ?S and r = 0 and b = False]
    by (simp add: newInput_def)
  have d1: "createFieldDescriptor ?S 1 =
      Inr ((describedInput 1)\<lparr>fillable := False, reason := ''Field is disabled''\<rparr>)"
    using createFieldDescriptor_newInput[where store = ?S and r = 1 and b = True]
    by simp
  have fl: "fillable (describedInput 0)" by (simp add: describedInput_def)
  show ?thesis
    using d0 d1 fl by (simp add: getProtectedFieldsCount_def)
qed

section \<open>Properties of the classifier\<close>

lemma find_kind_or_text:
  "find (\<lambda>r. Some ty = ruleKind r \<or> ruleText r) rs =
     (if list_ex ruleText (takeWhile (\<lambda>r. ruleKind r \<noteq> Some ty) rs) then find ruleText rs
      else find (\<lambda>r. ruleKind r = Some ty) rs)"
  by (induction rs) auto

lemma case_if:
  "(case (if c then x else y) of None \<Rightarrow> a | Some r \<Rightarrow> f r) =
     (if c then (case x of None \<Rightarrow> a | Some r \<Rightarrow> f r) else (case y of None \<Rightarrow> a | Some r \<Rightarrow> f r))"
  by simp

lemma last_rule: "(if a \<or> b then x else y) = (if b then x else if a then x else y)"
  by simp

lemma classifyRules_table:
  "classifyRules e ty txt =
     (case find (\<lambda>r. Some ty = ruleKind r \<or> ruleText r) (classifierRules txt) of
        Some r \<Rightarrow> ruleVerdict r | None \<Rightarrow> noTextVerdict e ty)"
  unfolding classifyRules_def last_rule[of "tagName e = ''TEXTAREA''"]
  by (simp add: classifierRules_def ruleKind_def ruleText_def
      ruleVerdict_def noTextVerdict_def case_if split del: if_split cong: if_cong)

lemma earlierText_textVerdict:
  assumes "earlierText ty txt"
  shows "textVerdict txt \<noteq> None"
proof -
  from assms obtain r where
    "r \<in> set (takeWhile (\<lambda>r. ruleKind r \<noteq> Some ty) (classifierRules txt))" and t: "ruleText r"
    unfolding earlierText_def list_ex_iff by blast
  then have "r \<in> set (classifierRules txt)" by (blast dest: set_takeWhileD)
  with t have "find ruleText (classifierRules txt) \<noteq> None"
    unfolding find_None_iff by blast
  then show ?thesis by (simp add: textVerdict_def)
qed

lemma classifyRules_in_order:
  "classifyRules e ty txt =
     (if earlierText ty txt then the (textVerdict txt)
      else case kindVerdict ty txt of Some v \<Rightarrow> v | None \<Rightarrow> noTextVerdict e ty)"
proof (cases "earlierText ty txt")
  case True
  from earlierText_textVerdict[OF True] obtain r where
    r: "find ruleText (classifierRules txt) = Some r"
    by (auto simp: textVerdict_def)
  from True r show ?thesis
    by (simp add: classifyRules_table find_kind_or_text earlierText_def textVerdict_def)
next
  case False
  then show ?thesis
    by (simp add: classifyRules_table find_kind_or_text earlierText_def kindVerdict_def
        split: option.splits)
qed

lemma kindVerdict_exact:
  "kindVerdict ''email'' txt = Some (''personal'', ''email'', 95/100)"
  "kindVerdict ''date'' txt =
     Some (''datetime'', (if matches txt re_birth then ''birthDate'' else ''date''), 9/10)"
  "kindVerdict ''time'' txt = Some (''datetime'', ''time'', 9/10)"
  "kindVerdict ''number'' txt =
     Some (''number'',
       (if matches txt re_age then ''age''
        else if matches txt re_price then ''price''
        else if matches txt re_quantity then ''quantity''
        else ''number''), 8/10)"
  "kindVerdict ''url'' txt = Some (''web'', ''url'', 9/10)"
  "kindVerdict ''color'' txt = Some (''web'', ''color'', 9/10)"
  by (simp_all add: kindVerdict_def classifierRules_def ruleKind_def ruleVerdict_def
      split del: if_split)

lemma kindVerdict_category:
  assumes "kind \<in> set exactKinds"
  shows "kindVerdict kind txt \<noteq> None
     \<and> fst (the (kindVerdict kind txt)) = kindCategory kind
     \<and> (kind \<in> set [''email'', ''time'', ''url'', ''color''] \<longrightarrow>
          fst (snd (the (kindVerdict kind txt))) = kind)"
proof -
  from assms have "kind = ''email'' \<or> kind = ''date'' \<or> kind = ''time''
    \<or> kind = ''number'' \<or> kind = ''url'' \<or> kind = ''color''"
    by (simp add: exactKinds_def)
  then show ?thesis
  proof (elim disjE)
    assume k: "kind = ''email''"
    show ?thesis unfolding k by (simp add: kindVerdict_exact kindCategory_def)
  next
    assume k: "kind = ''date''"
    show ?thesis unfolding k by (simp add: kindVerdict_exact kindCategory_def)
  next
    assume k: "kind = ''time''"
    show ?thesis unfolding k by (simp add: kindVerdict_exact kindCategory_def)
  next
    assume k: "kind = ''number''"
    show ?thesis unfolding k by (simp add: kindVerdict_exact kindCategory_def)
  next
    assume k: "kind = ''url''"
    show ?thesis unfolding k by (simp add: kindVerdict_exact kindCategory_def)
  next
    assume k: "kind = ''color''"
    show ?thesis unfolding k by (simp add: kindVerdict_exact kindCategory_def)
  qed
qed

lemma classifyField_label:
  "getFieldLabel e = Inr lbl \<Longrightarrow>
   classifyField e =
     Inr \<lparr>c_category = fst (classifyRules e (classType e) (allText e lbl)),
          c_subtype = fst (snd (classifyRules e (classType e) (allText e lbl))),
          originalType = classType e,
          c_confidence = snd (snd (classifyRules e (classType e) (allText e lbl))),
          c_detectedFrom = getDetectionSource (allText e lbl) (classType e)\<rparr>"
  by (simp add: classifyField_def Let_def case_prod_beta)

lemma classifyField_throws:
  "getFieldLabel e = Inl err \<Longrightarrow> classifyField e = Inl err"
  by (simp add: classifyField_def)

text \<open>
  Claim C2, amended. When the look-up of the label does not throw, \<open>classifyField\<close>
  returns, and its verdict is that of the first rule, in the order of the rules, that
  names the kind of the control or whose text pattern matches: when the text pattern
  of a rule that stands before the rule of the kind matches, the first text rule that
  matches decides, whatever the kind; otherwise the rule of the kind decides, and a
  control whose kind is email, date, time, number, url or color then gets the
  category of its kind (and, for email, time, url and color, the kind as its
  subtype).
\<close>

theorem classifyField_rules_in_order:
  assumes "getFieldLabel e = Inr lbl"
  shows "\<exists>c. classifyField e = Inr c \<and> originalType c = classType e
     \<and> (earlierText (classType e) (allText e lbl) \<longrightarrow>
          textVerdict (allText e lbl) = Some (c_category c, c_subtype c, c_confidence c))
     \<and> (\<not> earlierText (classType e) (allText e lbl) \<longrightarrow>
          (c_category c, c_subtype c, c_confidence c) =
            (case kindVerdict (classType e) (allText e lbl) of
               Some v \<Rightarrow> v | None \<Rightarrow> noTextVerdict e (classType e)))
     \<and> (classType e \<in> set exactKinds \<and> \<not> earlierText (classType e) (allText e lbl) \<longrightarrow>
          c_category c = kindCategory (classType e)
          \<and> (classType e \<in> set [''email'', ''time'', ''url'', ''color''] \<longrightarrow>
               c_subtype c = classType e))"
proof -
  let ?ty = "classType e" and ?t = "allText e lbl"
  define c where "c =
    \<lparr>c_category = fst (classifyRules e ?ty ?t),
     c_subtype = fst (snd (classifyRules e ?ty ?t)),
     originalType = ?ty,
     c_confidence = snd (snd (classifyRules e ?ty ?t)),
     c_detectedFrom = getDetectionSource ?t ?ty\<rparr>"
  have r: "classifyField e = Inr c"
    unfolding c_def by (rule classifyField_label[OF assms])
  have o: "originalType c = ?ty" by (simp add: c_def)
  have v: "(c_category c, c_subtype c, c_confidence c) = classifyRules e ?ty ?t"
    by (simp add: c_def)
  have a: "textVerdict ?t = Some (c_category c, c_subtype c, c_confidence c)"
    if "earlierText ?ty ?t"
    unfolding v using that earlierText_textVerdict[OF that]
    by (auto simp: classifyRules_in_order)
  have b: "(c_category c, c_subtype c, c_confidence c) =
        (case kindVerdict ?ty ?t of Some v \<Rightarrow> v | None \<Rightarrow> noTextVerdict e ?ty)"
    if "\<not> earlierText ?ty ?t"
    unfolding v using that by (simp add: classifyRules_in_order)
  have d: "c_category c = kindCategory ?ty
      \<and> (?ty \<in> set [''email'', ''time'', ''url'', ''color''] \<longrightarrow> c_subtype c = ?ty)"
    if k: "?ty \<in> set exactKinds" and n: "\<not> earlierText ?ty ?t"
  proof -
    note kvc = kindVerdict_category[OF k, of ?t]
    from kvc obtain kv where kv: "kindVerdict ?ty ?t = Some kv" by blast
    from kvc have "fst (the (kindVerdict ?ty ?t)) = kindCategory ?ty"
      by (rule conjunct1[OF conjunct2])
    with kv have cat: "fst kv = kindCategory ?ty" by simp
    from kvc have "?ty \<in> set [''email'', ''time'', ''url'', ''color''] \<longrightarrow>
        fst (snd (the (kindVerdict ?ty ?t))) = ?ty"
      by (rule conjunct2[OF conjunct2])
    with kv have sub: "?ty \<in> set [''email'', ''time'', ''url'', ''color''] \<longrightarrow>
        fst (snd kv) = ?ty"
      by (simp only: option.sel)
    from b[OF n] kv have e: "(c_category c, c_subtype c, c_confidence c) = kv" by simp
    from e have "c_category c = fst kv" "c_subtype c = fst (snd kv)" by auto
    with cat sub show ?thesis by (simp only:)
  qed
  from r o a b d show ?thesis by (intro exI[of _ c]) blast
qed

lemma getFieldLabel_named:
  "getFieldLabel (newInput\<lparr>el_type := ty, name := nm\<rparr>) = Inr []"
  by (simp add: getFieldLabel_def newInput_def orEmpty_def)

lemma allText_named:
  "allText (newInput\<lparr>el_type := ty, name := nm\<rparr>) [] = toLowerCase (nm @ ''    '')"
  by (simp add: allText_def newInput_def)

lemma classType_named:
  "ty \<noteq> [] \<Longrightarrow> classType (newInput\<lparr>el_type := ty, name := nm\<rparr>) = toLowerCase ty"
  by (simp add: classType_def)

text \<open>
  A url input named \<open>homepage\<close>: no earlier text rule matches, and the kind decides. A
  number input named \<open>phone\<close>: the text rule of the phone stands before the rule of
  the kind and decides.
\<close>

theorem classifyField_rules_in_order_witness:
  "getFieldLabel (newInput\<lparr>el_type := ''url'', name := ''homepage''\<rparr>) = Inr []
   \<and> classType (newInput\<lparr>el_type := ''url'', name := ''homepage''\<rparr>) \<in> set exactKinds
   \<and> \<not> earlierText ''url'' (allText (newInput\<lparr>el_type := ''url'', name := ''homepage''\<rparr>) [])
   \<and> (\<exists>c. classifyField (newInput\<lparr>el_type := ''url'', name := ''homepage''\<rparr>) = Inr c
          \<and> c_category c = ''web'' \<and> c_subtype c = ''url'')
   \<and> getFieldLabel (newInput\<lparr>el_type := ''number'', name := ''phone''\<rparr>) = Inr []
   \<and> earlierText ''number'' (allText (newInput\<lparr>el_type := ''number'', name := ''phone''\<rparr>) [])
   \<and> (\<exists>c. classifyField (newInput\<lparr>el_type := ''number'', name := ''phone''\<rparr>) = Inr c
          \<and> c_category c = ''personal'' \<and> c_subtype c = ''phone'')"
proof -
  let ?u = "newInput\<lparr>el_type := ''url'', name := ''homepage''\<rparr>"
  let ?n = "newInput\<lparr>el_type := ''number'', name := ''phone''\<rparr>"
  have low: "toLowerCase ''url'' = ''url''" "toLowerCase ''number'' = ''number''"
    "toLowerCase ''homepage    '' = ''homepage    ''" "toLowerCase ''phone    '' = ''phone    ''"
    by code_simp+
  have ty: "classType ?u = ''url''" "classType ?n = ''number''"
    by (simp_all add: classType_named low)
  have tx: "allText ?u [] = ''homepage    ''" "allText ?n [] = ''phone    ''"
    by (simp_all add: allText_named low)
  have k: "''url'' \<in> set exactKinds" by (simp add: exactKinds_def)
  have nu: "\<not> earlierText ''url'' ''homepage    ''" by code_simp
  have en: "earlierText ''number'' ''phone    ''" by code_simp
  have vn: "textVerdict ''phone    '' = Some (''personal'', ''phone'', 9/10)" by code_simp
  from classifyField_rules_in_order[OF getFieldLabel_named[where ty = "''url''"
      and nm = "''homepage''"]]
  obtain c where c: "classifyField ?u = Inr c" "c_category c = ''web''" "c_subtype c = ''url''"
    unfolding ty tx using k nu by (auto simp: kindCategory_def)
  from classifyField_rules_in_order[OF getFieldLabel_named[where ty = "''number''"
      and nm = "''phone''"]]
  obtain c' where c': "classifyField ?n = Inr c'" "c_category c' = ''personal''"
      "c_subtype c' = ''phone''"
    unfolding ty tx using en vn by auto
  from c c' show ?thesis
    by (simp add: getFieldLabel_named ty tx k nu en)
qed

text \<open>
  As the claim is worded it fails twice. A number input named \<open>phone\<close> is classified
  as a phone of category personal, by the text rule that stands before the rule of
  its kind. And text patterns apply whatever the kind: a checkbox named
  \<open>email-notifications-checkbox\<close> is classified as an email by the email text pattern,
  while a checkbox named \<open>terms\<close> stays general.
\<close>

theorem classifyField_text_before_kind_counterexample:
  "classifyField (newInput\<lparr>el_type := ''number'', name := ''phone''\<rparr>) =
     Inr \<lparr>c_category = ''personal'', c_subtype = ''phone'', originalType = ''number'',
          c_confidence = 9/10, c_detectedFrom = ''input-type''\<rparr>
   \<and> classifyField (newInput\<lparr>el_type := ''checkbox'', name := ''email-notifications-checkbox''\<rparr>) =
     Inr \<lparr>c_category = ''personal'', c_subtype = ''email'', originalType = ''checkbox'',
          c_confidence = 95/100, c_detectedFrom = ''input-type''\<rparr>
   \<and> classifyField (newInput\<lparr>el_type := ''checkbox'', name := ''terms''\<rparr>) =
     Inr \<lparr>c_category = ''general'', c_subtype = ''checkbox'', originalType = ''checkbox'',
          c_confidence = 5/10, c_detectedFrom = ''input-type''\<rparr>"
proof -
  let ?n = "newInput\<lparr>el_type := ''number'', name := ''phone''\<rparr>"
  let ?e = "newInput\<lparr>el_type := ''checkbox'', name := ''email-notifications-checkbox''\<rparr>"
  let ?t = "newInput\<lparr>el_type := ''checkbox'', name := ''terms''\<rparr>"
  have low: "toLowerCase ''number'' = ''number''" "toLowerCase ''checkbox'' = ''checkbox''"
    "toLowerCase ''phone    '' = ''phone    ''"
    "toLowerCase ''email-notifications-checkbox    '' = ''email-notifications-checkbox    ''"
    "toLowerCase ''terms    '' = ''terms    ''"
    by code_simp+
  have ty: "classType ?n = ''number''" "classType ?e = ''checkbox''" "classType ?t = ''checkbox''"
    by (simp_all add: classType_named low)
  have tx: "allText ?n [] = ''phone    ''" "allText ?e [] = ''email-notifications-checkbox    ''"
    "allText ?t [] = ''terms    ''"
    by (simp_all add: allText_named low)
  have tag: "tagName ?t = ''INPUT''" by (simp add: newInput_def)
  have earlier: "earlierText ''number'' ''phone    ''"
    "earlierText ''checkbox'' ''email-notifications-checkbox    ''"
    "\<not> earlierText ''checkbox'' ''terms    ''"
    by code_simp+
  have verdicts: "textVerdict ''phone    '' = Some (''personal'', ''phone'', 9/10)"
    "textVerdict ''email-notifications-checkbox    '' = Some (''personal'', ''email'', 95/100)"
    "kindVerdict ''checkbox'' ''terms    '' = None"
    by code_simp+
  have src: "getDetectionSource ''phone    '' ''number'' = ''input-type''"
    "getDetectionSource ''email-notifications-checkbox    '' ''checkbox'' = ''input-type''"
    "getDetectionSource ''terms    '' ''checkbox'' = ''input-type''"
    by code_simp+
  have rules: "classifyRules ?n ''number'' ''phone    '' = (''personal'', ''phone'', 9/10)"
    "classifyRules ?e ''checkbox'' ''email-notifications-checkbox    ''
       = (''personal'', ''email'', 95/100)"
    "classifyRules ?t ''checkbox'' ''terms    '' = (''general'', ''checkbox'', 5/10)"
    by (simp_all add: classifyRules_in_order earlier verdicts noTextVerdict_def tag)
  show ?thesis
    by (simp add: classifyField_label[OF getFieldLabel_named] ty tx rules src)
qed

section \<open>Properties of the fill engine\<close>

subsection \<open>Fields that are not fillable\<close>

lemma fillFieldFrom_unfillable:
  "\<not> fillable fd \<Longrightarrow>
   fillFieldFrom parse src fd w =
     (Inr False, w\<lparr>errors := errors w @ [''Cannot fill field: '' @ reason fd]\<rparr>)"
  by (simp add: fillFieldFrom_def)

text \<open>
  Claim C1. A descriptor with \<open>fillable = false\<close> is refused by \<open>fillField\<close> (and by
  \<open>fillFieldWithFakeData\<close>): the method returns false, and the state it leaves differs
  from the one it found only by one more message in \<open>errors\<close>, so no control has
  changed. A control that is disabled or read-only gets such a descriptor from
  \<open>createFieldDescriptor\<close>.
\<close>

theorem fillField_refuses_unfillable:
  "(\<not> fillable fd \<longrightarrow>
      fillField parse mapper fd userData w =
        (Inr False, w\<lparr>errors := errors w @ [''Cannot fill field: '' @ reason fd]\<rparr>)
      \<and> fillFieldWithFakeData parse gen fd w =
        (Inr False, w\<lparr>errors := errors w @ [''Cannot fill field: '' @ reason fd]\<rparr>))
   \<and> ((disabled (controls w r) \<or> readOnly (controls w r))
        \<and> createFieldDescriptor (controls w) r = Inr d \<longrightarrow>
        \<not> fillable d
        \<and> fst (fillField parse mapper d userData w) = Inr False
        \<and> controls (snd (fillField parse mapper d userData w)) = controls w)"
  by (auto simp: fillField_def fillFieldWithFakeData_def fillFieldFrom_unfillable
        createFieldDescriptor_fillable isFieldFillable_def)

theorem fillField_refuses_unfillable_witness:
  "disabled (controls (freshWorld (\<lambda>r. newInput\<lparr>disabled := True\<rparr>) [0] ()) 0)
   \<and> createFieldDescriptor (\<lambda>r. newInput\<lparr>disabled := True\<rparr>) 0 =
       Inr ((describedInput 0)\<lparr>fillable := False, reason := ''Field is disabled''\<rparr>)
   \<and> \<not> fillable ((describedInput 0)\<lparr>fillable := False, reason := ''Field is disabled''\<rparr>)
   \<and> fst (fillField (\<lambda>s. InvalidDate) (\<lambda>m store d u. (Inr (JStr ''John''), m))
            ((describedInput 0)\<lparr>fillable := False, reason := ''Field is disabled''\<rparr>) ()
            (freshWorld (\<lambda>r. newInput\<lparr>disabled := True\<rparr>) [0] ())) = Inr False
   \<and> el_value (controls (snd (fillField (\<lambda>s. InvalidDate) (\<lambda>m store d u. (Inr (JStr ''John''), m))
            ((describedInput 0)\<lparr>fillable := False, reason := ''Field is disabled''\<rparr>) ()
            (freshWorld (\<lambda>r. newInput\<lparr>disabled := True\<rparr>) [0] ()))) 0) = []"
proof -
  let ?store = "\<lambda>r::nat. newInput\<lparr>disabled := True\<rparr>"
  let ?w = "freshWorld ?store [0] ()"
  let ?d = "(describedInput 0)\<lparr>fillable := False, reason := ''Field is disabled''\<rparr>"
  have c: "controls ?w = ?store" by (simp add: freshWorld_def)
  have d: "disabled (controls ?w 0)" by (simp add: freshWorld_def newInput_def)
  have v: "el_value (?store 0) = []" by (simp add: newInput_def)
  have cd: "createFieldDescriptor ?store 0 = Inr ?d"
    using createFieldDescriptor_newInput[where store = ?store and r = 0 and b = True]
    by simp
  let ?mapper = "\<lambda>(m::unit) (store::nat \<Rightarrow> elem) (d::descriptor) (u::unit). (Inr (JStr ''John'') :: exn + jsval, m)"
  from d cd have "(disabled (controls ?w 0) \<or> readOnly (controls ?w 0))
      \<and> createFieldDescriptor (controls ?w) 0 = Inr ?d"
    unfolding c by simp
  with fillField_refuses_unfillable[where w = ?w and r = 0 and parse = "\<lambda>s. InvalidDate"
      and mapper = ?mapper and userData = "()" and d = ?d]
  have "\<not> fillable ?d
        \<and> fst (fillField (\<lambda>s. InvalidDate) ?mapper ?d () ?w) = Inr False
        \<and> controls (snd (fillField (\<lambda>s. InvalidDate) ?mapper ?d () ?w)) = controls ?w"
    by blast
  then show ?thesis unfolding c using d v cd by simp
qed

subsection \<open>Checkboxes\<close>

lemma getFieldLabel_filler_labelOf:
  "getFieldLabel_filler e =
     (if el_id e \<noteq> [] then (case labelFor e of Inl err \<Rightarrow> Inl err | Inr l \<Rightarrow> Inr (labelOf e))
      else Inr (labelOf e))"
  by (auto simp: getFieldLabel_filler_def labelOf_def orEmpty_def Let_def
      split: sum.splits option.splits)

text \<open>
  Claim C10, amended. Filling a checkbox with a boolean returns true and makes the
  boolean the checked state. For any other value the label of the control is looked
  up first. When the look-up does not throw, the fill returns true and checks the box
  exactly when the string of the value in lower case is one of the positive words, or
  equals the control's own value in lower case, or occurs in the label in lower case.
  When the look-up throws, \<open>fillCheckbox\<close> throws and the control is not changed.
  \<open>fillByType\<close> passes all of this on.
\<close>

theorem fillCheckbox_outcome:
  "fillCheckbox field (JBool b) = (Inr True, field\<lparr>checked := b\<rparr>)
   \<and> ((\<forall>b. v \<noteq> JBool b) \<and> (\<forall>err. \<not> labelLookupThrows field err) \<longrightarrow>
        fillCheckbox field v =
          (Inr True,
           field\<lparr>checked :=
             (toLowerCase (String_js v) \<in> set positiveValues
              \<or> toLowerCase (el_value field) = toLowerCase (String_js v)
              \<or> includes_str (toLowerCase (labelOf field)) (toLowerCase (String_js v)))\<rparr>))
   \<and> ((\<forall>b. v \<noteq> JBool b) \<and> labelLookupThrows field err \<longrightarrow>
        fillCheckbox field v = (Inl err, field))
   \<and> fillByType parse store r ''checkbox'' v =
        (fst (fillCheckbox (store r) v), store(r := snd (fillCheckbox (store r) v)))"
proof -
  have a: "fillCheckbox field (JBool b) = (Inr True, field\<lparr>checked := b\<rparr>)"
    by (simp add: fillCheckbox_def)
  have s: "fillCheckbox field v =
      (case shouldCheckBox field v of
         Inl err \<Rightarrow> (Inl err, field)
       | Inr shouldCheck \<Rightarrow> (Inr True, field\<lparr>checked := shouldCheck\<rparr>))"
    if "\<forall>b. v \<noteq> JBool b"
  proof (cases v)
    case (JBool x)
    with that show ?thesis by blast
  qed (simp_all add: fillCheckbox_def)
  have b: "fillCheckbox field v =
          (Inr True,
           field\<lparr>checked :=
             (toLowerCase (String_js v) \<in> set positiveValues
              \<or> toLowerCase (el_value field) = toLowerCase (String_js v)
              \<or> includes_str (toLowerCase (labelOf field)) (toLowerCase (String_js v)))\<rparr>)"
    if nb: "\<forall>b. v \<noteq> JBool b" and nt: "\<forall>err. \<not> labelLookupThrows field err"
  proof -
    from nt have "getFieldLabel_filler field = Inr (labelOf field)"
      by (auto simp: getFieldLabel_filler_labelOf labelLookupThrows_def split: sum.splits)
    then show ?thesis
      unfolding s[OF nb] by (simp add: shouldCheckBox_def Let_def)
  qed
  have c: "fillCheckbox field v = (Inl err, field)"
    if nb: "\<forall>b. v \<noteq> JBool b" and t: "labelLookupThrows field err"
  proof -
    from t have "getFieldLabel_filler field = Inl err"
      by (simp add: getFieldLabel_filler_labelOf labelLookupThrows_def)
    then show ?thesis
      unfolding s[OF nb] by (simp add: shouldCheckBox_def)
  qed
  have d: "fillByType parse store r ''checkbox'' v =
        (fst (fillCheckbox (store r) v), store(r := snd (fillCheckbox (store r) v)))"
    by (simp add: fillByType_def onElemE_def)
  from a b c d show ?thesis by blast
qed

text \<open>
  A checkbox whose label is \<open>Subscribe to the Newsletter\<close> and whose value is \<open>on\<close>:
  the value \<open>NEWSLETTER\<close> checks it, by the label; the value \<open>weekly\<close> unchecks it.
\<close>

theorem fillCheckbox_outcome_witness:
  "(\<forall>b. JStr ''NEWSLETTER'' \<noteq> JBool b) \<and> (\<forall>err. \<not> labelLookupThrows labelledBox err)
   \<and> labelOf labelledBox = ''Subscribe to the Newsletter''
   \<and> fillCheckbox labelledBox (JStr ''NEWSLETTER'') = (Inr True, labelledBox\<lparr>checked := True\<rparr>)
   \<and> fillCheckbox labelledBox (JStr ''weekly'') = (Inr True, labelledBox\<lparr>checked := False\<rparr>)
   \<and> fillCheckbox (labelledBox\<lparr>checked := True\<rparr>) (JBool False)
       = (Inr True, labelledBox\<lparr>checked := False\<rparr>)"
proof -
  have val: "el_value labelledBox = ''on''"
    by (simp add: labelledBox_def)
  have lbl: "labelOf labelledBox = ''Subscribe to the Newsletter''"
    by (simp add: labelledBox_def labelOf_def newInput_def)
  have nt: "\<forall>err. \<not> labelLookupThrows labelledBox err"
    by (simp add: labelLookupThrows_def labelledBox_def)
  have news: "(toLowerCase (String_js (JStr ''NEWSLETTER'')) \<in> set positiveValues
           \<or> toLowerCase ''on'' = toLowerCase (String_js (JStr ''NEWSLETTER''))
           \<or> includes_str (toLowerCase ''Subscribe to the Newsletter'')
                (toLowerCase (String_js (JStr ''NEWSLETTER'')))) = True"
    "toLowerCase (String_js (JStr ''NEWSLETTER'')) \<notin> set positiveValues"
    "toLowerCase ''on'' \<noteq> toLowerCase (String_js (JStr ''NEWSLETTER''))"
    by code_simp+
  have weekly: "(toLowerCase (String_js (JStr ''weekly'')) \<in> set positiveValues
           \<or> toLowerCase ''on'' = toLowerCase (String_js (JStr ''weekly''))
           \<or> includes_str (toLowerCase ''Subscribe to the Newsletter'')
                (toLowerCase (String_js (JStr ''weekly'')))) = False"
    by code_simp
  from fillCheckbox_outcome[of labelledBox True "JStr ''NEWSLETTER''"] nt
  have a: "fillCheckbox labelledBox (JStr ''NEWSLETTER'') = (Inr True, labelledBox\<lparr>checked := True\<rparr>)"
    unfolding val lbl news(1) by simp
  from fillCheckbox_outcome[of labelledBox True "JStr ''weekly''"] nt
  have b: "fillCheckbox labelledBox (JStr ''weekly'') = (Inr True, labelledBox\<lparr>checked := False\<rparr>)"
    unfolding val lbl weekly by simp
  from fillCheckbox_outcome[of "labelledBox\<lparr>checked := True\<rparr>" False]
  have c: "fillCheckbox (labelledBox\<lparr>checked := True\<rparr>) (JBool False)
       = (Inr True, labelledBox\<lparr>checked := False\<rparr>)"
    by simp
  from a b c nt lbl show ?thesis by simp
qed

text \<open>
  As the claim is worded (the fill of a checkbox always returns true and is never
  reported as a failure) it fails on a checkbox whose id holds a double quote: for the
  value \<open>yes\<close> the look-up of the label throws, \<open>fillCheckbox\<close> throws, the box stays
  unchecked, and \<open>fillField\<close> records the error and returns false.
\<close>

theorem fillCheckbox_throws_counterexample:
  "fillCheckbox quotedBox (JStr ''yes'') = (Inl (notValidSelector
       (''label[for='' @ [CHR 0x22] @ ''a'' @ [CHR 0x22] @ ''b'' @ [CHR 0x22] @ '']'')), quotedBox)
   \<and> fst (fillField (\<lambda>s. InvalidDate) (\<lambda>m store d u. (Inr (JStr ''yes''), m))
          (plainDescriptor 0 ''checkbox'' ''agree'' True) ()
          (freshWorld (\<lambda>r. quotedBox) [0] ())) = Inr False
   \<and> errors (snd (fillField (\<lambda>s. InvalidDate) (\<lambda>m store d u. (Inr (JStr ''yes''), m))
          (plainDescriptor 0 ''checkbox'' ''agree'' True) ()
          (freshWorld (\<lambda>r. quotedBox) [0] ()))) =
       [''Error filling field agree: '' @ ''label[for='' @ [CHR 0x22] @ ''a'' @ [CHR 0x22] @ ''b''
          @ [CHR 0x22] @ '']'' @ '' is not a valid selector.'']
   \<and> \<not> checked (controls (snd (fillField (\<lambda>s. InvalidDate) (\<lambda>m store d u. (Inr (JStr ''yes''), m))
          (plainDescriptor 0 ''checkbox'' ''agree'' True) ()
          (freshWorld (\<lambda>r. quotedBox) [0] ()))) 0)"
proof -
  let ?err = "notValidSelector
       (''label[for='' @ [CHR 0x22] @ ''a'' @ [CHR 0x22] @ ''b'' @ [CHR 0x22] @ '']'')"
  have l: "getFieldLabel_filler quotedBox = Inl ?err"
    by (simp add: getFieldLabel_filler_def quotedBox_def)
  have a: "fillCheckbox quotedBox (JStr ''yes'') = (Inl ?err, quotedBox)"
    by (simp add: fillCheckbox_def shouldCheckBox_def l)
  have m: "message ?err = Inr (''label[for='' @ [CHR 0x22] @ ''a'' @ [CHR 0x22] @ ''b''
          @ [CHR 0x22] @ '']'' @ '' is not a valid selector.'')"
    by (simp add: notValidSelector_def)
  have u: "\<not> checked quotedBox" by (simp add: quotedBox_def newInput_def)
  have f: "\<not> checked (addVisualFeedback st quotedBox)" for st
    using u by (simp add: addVisualFeedback_def classList_add_def classList_remove_def Let_def)
  show ?thesis
    using m f
    by (simp add: a fillField_def fillFieldFrom_def plainDescriptor_def freshWorld_def
        fillByType_def onElemE_def caught_def Let_def)
qed

subsection \<open>Number controls\<close>






subsection \<open>Filling all fields\<close>













lemma processField_success:
  assumes "quietCallbacks opts" "fillFieldFrom parse src fd (markProcessing fd w) = (Inr True, w')"
  shows "processField parse src opts n fd c w = Continue (Suc c) w'"
  using assms by (simp add: processField_def quietCallbacks_def reportProgress_def)

lemma processField_failure:
  assumes "\<not> skipErrors opts" "fillFieldFrom parse src fd (markProcessing fd w) = (Inr False, w')"
  shows "processField parse src opts n fd c w = Break c w'"
  using assms by (simp add: processField_def)

lemma fillLoop_stops:
  assumes "quietCallbacks opts" "\<not> skipErrors opts"
    and "fillsAll parse src pre w = Some w1"
    and "fillFieldFrom parse src f (markProcessing f w1) = (Inr False, w2)"
  shows "fillLoop parse src opts n (pre @ f # post) c w = (Inr (c + length pre), w2)"
  using assms(3)
proof (induction pre arbitrary: c w)
  case Nil
  with assms(2,4) show ?case by (simp add: processField_failure)
next
  case (Cons fd pre)
  from Cons.prems obtain w' where
    ok: "fillFieldFrom parse src fd (markProcessing fd w) = (Inr True, w')"
    and rest: "fillsAll parse src pre w' = Some w1"
    by (auto split: prod.splits sum.splits bool.splits)
  from Cons.IH[OF rest, of "Suc c"] processField_success[OF assms(1) ok]
  show ?case by simp
qed

lemma markProcessing_simps:
  "errors (markProcessing fd w) = errors w"
  "source (markProcessing fd w) = source w"
  "document (markProcessing fd w) = document w"
  "controls (markProcessing fd w) r =
     (if r = element fd then addVisualFeedback ''processing'' (controls w r) else controls w r)"
  by (simp_all add: markProcessing_def)

lemma fillFieldFrom_text:
  assumes "fillable fd" "fd_type fd = ''text''"
    and "src (source w) (controls w) fd = (Inr (JStr s), m)"
  shows "fst (fillFieldFrom parse src fd w) = Inr True"
    and "errors (snd (fillFieldFrom parse src fd w)) = errors w"
    and "source (snd (fillFieldFrom parse src fd w)) = m"
    and "r \<noteq> element fd \<Longrightarrow> controls (snd (fillFieldFrom parse src fd w)) r = controls w r"
  using assms
  by (simp_all add: fillFieldFrom_def fillByType_def onElem_def fillTextInput_def Let_def)

lemma fillFieldFrom_number_rejected:
  assumes "fillable fd" "fd_type fd = ''number''"
    and "src (source w) (controls w) fd = (Inr v, m)" "v \<noteq> JNull" "v \<noteq> JUndefined"
    and "fst (fillNumberInput (controls w (element fd)) v) = False"
  shows "fst (fillFieldFrom parse src fd w) = Inr False"
    and "errors (snd (fillFieldFrom parse src fd w)) = errors w"
  using assms
  by (simp_all add: fillFieldFrom_def fillByType_def onElem_def Let_def)

lemma fillNumberInput_feedback:
  "fst (fillNumberInput (addVisualFeedback st e) v) = fst (fillNumberInput e v)"
  by (simp add: fillNumberInput_def addVisualFeedback_def classList_add_def
      classList_remove_def Let_def)

text \<open>
  Claim C5. With \<open>skipErrors = false\<close> and callbacks that do not throw, let the fillable
  descriptors be \<open>pre\<close>, then \<open>f\<close>, then \<open>post\<close>, where every field of \<open>pre\<close> is filled
  with success and the attempt on \<open>f\<close> returns false. Then \<open>fillAllFields\<close> returns with
  \<open>filled = length pre\<close>, and the state it leaves is the one right after the attempt on
  \<open>f\<close>: no field of \<open>post\<close> is attempted.
\<close>

theorem fillAll_stops_at_first_failure:
  assumes "quietCallbacks opts" and "\<not> skipErrors opts"
    and "filter fillable fds = pre @ f # post"
    and "fillsAll parse (\<lambda>m store d. mapper m store d userData) pre
           (w\<lparr>filledFields := [], errors := []\<rparr>) = Some w1"
    and "fillFieldFrom parse (\<lambda>m store d. mapper m store d userData) f (markProcessing f w1)
           = (Inr False, w2)"
  shows "fillAllFields parse mapper fds userData opts w =
           (Inr \<lparr>b_total = length pre + 1 + length post, b_filled = length pre,
                 b_errors = length (errors w2), b_success = (pre \<noteq> [])\<rparr>, w2)"
  using fillLoop_stops[OF assms(1,2,4,5), of "length (pre @ f # post)" post 0] assms(3)
  by (simp add: fillAllFields_def fillAllFrom_def Let_def)

theorem fillAll_stops_at_first_failure_witness:
  "quietCallbacks (defaultOptions\<lparr>skipErrors := False\<rparr>)
   \<and> \<not> skipErrors (defaultOptions\<lparr>skipErrors := False\<rparr>)
   \<and> fst (fillAllFields (\<lambda>s. InvalidDate) nameMapper
            [plainDescriptor 0 ''text'' ''firstName'' True,
             plainDescriptor 1 ''number'' ''age'' True,
             plainDescriptor 2 ''text'' ''lastName'' True] ()
            (defaultOptions\<lparr>skipErrors := False\<rparr>)
            (freshWorld (\<lambda>r. if r = 1 then ageField else newInput) [0, 1, 2] ()))
       = Inr \<lparr>b_total = 3, b_filled = 1, b_errors = 0, b_success = True\<rparr>"
proof -
  let ?parse = "\<lambda>s::string. InvalidDate"
  let ?src = "\<lambda>m store d. nameMapper m store d ()"
  let ?f0 = "plainDescriptor 0 ''text'' ''firstName'' True"
  let ?f1 = "plainDescriptor 1 ''number'' ''age'' True"
  let ?f2 = "plainDescriptor 2 ''text'' ''lastName'' True"
  let ?opts = "defaultOptions\<lparr>skipErrors := False\<rparr>"
  let ?w = "freshWorld (\<lambda>r. if r = 1 then ageField else newInput) [0, 1, 2] ()"
  let ?w0 = "?w\<lparr>filledFields := [], errors := []\<rparr>"
  let ?w1 = "snd (fillFieldFrom ?parse ?src ?f0 (markProcessing ?f0 ?w0))"
  let ?w2 = "snd (fillFieldFrom ?parse ?src ?f1 (markProcessing ?f1 ?w1))"
  have q: "quietCallbacks ?opts"
    by (simp add: quietCallbacks_def call_onFieldFilled_def call_onProgress_def defaultOptions_def)
  have s: "\<not> skipErrors ?opts" by simp
  have fl: "filter fillable [?f0, ?f1, ?f2] = [?f0] @ ?f1 # [?f2]"
    by (simp add: plainDescriptor_def)
  have f0: "fillable ?f0" "fd_type ?f0 = ''text''" "element ?f0 = 0"
    "?src (source (markProcessing ?f0 ?w0)) (controls (markProcessing ?f0 ?w0)) ?f0
       = (Inr (JStr ''John''), ())"
    by (simp_all add: plainDescriptor_def nameMapper_def)
  have f1: "fillable ?f1" "fd_type ?f1 = ''number''" "element ?f1 = 1"
    "?src (source (markProcessing ?f1 ?w1)) (controls (markProcessing ?f1 ?w1)) ?f1
       = (Inr (JStr ''150''), ())"
    by (simp_all add: plainDescriptor_def nameMapper_def)
  note A = fillFieldFrom_text[where src = ?src and w = "markProcessing ?f0 ?w0" and fd = ?f0
      and parse = ?parse, OF f0(1,2,4)]
  have ok0: "fst (fillFieldFrom ?parse ?src ?f0 (markProcessing ?f0 ?w0)) = Inr True"
    by (rule A(1))
  have e1: "errors ?w1 = []"
    using A(2) by (simp add: markProcessing_simps freshWorld_def)
  have c1: "controls ?w1 1 = ageField"
    using A(4)[of 1] by (simp add: markProcessing_simps freshWorld_def f0(3))
  from ok0 have pre: "fillsAll ?parse ?src [?f0] ?w0 = Some ?w1"
    by (auto split: prod.splits sum.splits bool.splits)
  have attrs: "el_min ageField = ''0''" "el_max ageField = ''120''" "step ageField = ''1''"
    by (simp_all add: ageField_def newInput_def)
  have nums: "Number_str ''150'' = Num 150" "Number_str ''120'' = Num 120"
    "Number_str ''0'' = Num 0" "Number_str ''1'' = Num 1"
    by code_simp+
  have rej: "fst (fillNumberInput ageField (JStr ''150'')) = False"
    by (simp add: fillNumberInput_def attrs nums)
  have rej': "fst (fillNumberInput (controls (markProcessing ?f1 ?w1) (element ?f1)) (JStr ''150''))
                = False"
    using c1 f1(3) by (simp add: markProcessing_simps fillNumberInput_feedback rej)
  note B = fillFieldFrom_number_rejected[where src = ?src and w = "markProcessing ?f1 ?w1"
      and fd = ?f1 and parse = ?parse and v = "JStr ''150''", OF f1(1,2,4) _ _ rej']
  have no: "fst (fillFieldFrom ?parse ?src ?f1 (markProcessing ?f1 ?w1)) = Inr False"
    by (rule B(1)) simp_all
  have e2: "errors ?w2 = []"
    using B(2) e1 by (simp add: markProcessing_simps)
  from no have fail: "fillFieldFrom ?parse ?src ?f1 (markProcessing ?f1 ?w1) = (Inr False, ?w2)"
    by (simp add: prod_eq_iff)
  from fillAll_stops_at_first_failure[where mapper = nameMapper and userData = "()"
      and pre = "[?f0]" and f = ?f1 and post = "[?f2]" and parse = ?parse,
      OF q s fl pre fail] e2 q
  show ?thesis by simp
qed

subsection \<open>Week controls\<close>

text \<open>
  The length of a year in days, from the leap year rule, and the year of a day.
\<close>

lemma div_succ:
  fixes x c :: int
  assumes "0 < c"
  shows "(x + 1) div c = x div c + (if c dvd x + 1 then 1 else 0)"
proof -
  define k r where "k = (x + 1) div c" and "r = (x + 1) mod c"
  have e: "x + 1 = c * k + r" by (simp add: k_def r_def)
  have r: "0 \<le> r" "r < c" using assms by (simp_all add: r_def)
  show ?thesis
  proof (cases "c dvd x + 1")
    case True
    then have "r = 0" by (simp add: r_def)
    with e have "x = c * (k - 1) + (c - 1)" by (simp add: algebra_simps)
    from int_div_pos_eq[OF this] assms have "x div c = k - 1" by simp
    with True show ?thesis by (simp add: k_def)
  next
    case False
    then have "r \<noteq> 0" by (simp add: r_def mod_eq_0_iff_dvd)
    with r e have "x = c * k + (r - 1)" "0 \<le> r - 1" "r - 1 < c" by simp_all
    from int_div_pos_eq[OF this] have "x div c = k" .
    with False show ?thesis by (simp add: k_def)
  qed
qed

lemma DayFromYear_next:
  "DayFromYear (y + 1) =
     DayFromYear y + 365 + (if 4 dvd y - 1968 then 1 else 0)
       - (if 100 dvd y - 1900 then 1 else 0) + (if 400 dvd y - 1600 then 1 else 0)"
  using div_succ[of 4 "y - 1969"] div_succ[of 100 "y - 1901"] div_succ[of 400 "y - 1601"]
  by (simp add: DayFromYear_def)

lemma century_leap: "100 dvd (y::int) - 1900 \<Longrightarrow> 4 dvd y - 1968"
  by presburger

lemma fourth_century: "400 dvd (y::int) - 1600 \<Longrightarrow> 100 dvd y - 1900"
  by presburger

lemma DayFromYear_next_lower: "DayFromYear y + 365 \<le> DayFromYear (y + 1)"
  using century_leap[of y] by (simp add: DayFromYear_next)

lemma DayFromYear_next_upper: "DayFromYear (y + 1) \<le> DayFromYear y + 366"
  using fourth_century[of y] by (simp add: DayFromYear_next)

lemma DayFromYear_mono_aux: "DayFromYear y \<le> DayFromYear (y + int n)"
proof (induction n)
  case 0
  then show ?case by simp
next
  case (Suc n)
  from DayFromYear_next_lower[of "y + int n"] Suc show ?case by (simp add: algebra_simps)
qed

lemma DayFromYear_mono: "a \<le> b \<Longrightarrow> DayFromYear a \<le> DayFromYear b"
  using DayFromYear_mono_aux[of a "nat (b - a)"] by simp

lemma DayFromYear_less: "DayFromYear a < DayFromYear b \<Longrightarrow> a < b"
  using DayFromYear_mono[of b a] by (cases "a < b") simp_all

lemma yearSearch_finds:
  "y0 \<le> Y \<Longrightarrow> DayFromYear Y \<le> t \<Longrightarrow> t < DayFromYear (Y + 1) \<Longrightarrow> yearSearch t y0 = Y"
proof (induction t y0 rule: yearSearch.induct)
  case (1 d y)
  show ?case
  proof (cases "y = Y")
    case True
    with "1.prems" show ?thesis by (subst yearSearch.simps) simp
  next
    case False
    with "1.prems" have lt: "y + 1 \<le> Y" by simp
    from DayFromYear_mono[OF lt] "1.prems" have go: "DayFromYear (y + 1) \<le> d" by simp
    from "1.IH"[OF go lt "1.prems"(2,3)] go show ?thesis
      by (subst yearSearch.simps) simp
  qed
qed

lemma DayFromYear_after_1970: "DayFromYear (1970 + int n) \<le> 366 * int n"
proof (induction n)
  case 0
  show ?case by (simp add: DayFromYear_def)
next
  case (Suc n)
  from DayFromYear_next_upper[of "1970 + int n"] Suc show ?case by (simp add: algebra_simps)
qed

lemma DayFromYear_before_1970: "DayFromYear (1970 - int n) \<le> - 365 * int n"
proof (induction n)
  case 0
  show ?case by (simp add: DayFromYear_def)
next
  case (Suc n)
  from DayFromYear_next_lower[of "1970 - int (Suc n)"] Suc show ?case
    by (simp add: algebra_simps)
qed

lemma start_not_late:
  "DayFromYear (1970 + (if 0 \<le> t then t div 366 else t div 365)) \<le> t"
proof (cases "0 \<le> t")
  case True
  define k where "k = t div 366"
  have k: "0 \<le> k" using True by (simp add: k_def pos_imp_zdiv_nonneg_iff)
  have "366 * k + t mod 366 = t" unfolding k_def by (rule mult_div_mod_eq)
  moreover have "0 \<le> t mod 366" by simp
  ultimately have "366 * k \<le> t" by linarith
  moreover from DayFromYear_after_1970[of "nat k"] k
  have "DayFromYear (1970 + k) \<le> 366 * k" by simp
  ultimately have "DayFromYear (1970 + k) \<le> t" by linarith
  with True show ?thesis by (simp add: k_def)
next
  case False
  define k where "k = t div 365"
  have k: "k < 0" using False by (simp add: k_def neg_imp_zdiv_neg_iff)
  have "365 * k + t mod 365 = t" unfolding k_def by (rule mult_div_mod_eq)
  moreover have "0 \<le> t mod 365" by simp
  ultimately have "365 * k \<le> t" by linarith
  moreover from DayFromYear_before_1970[of "nat (- k)"] k
  have "DayFromYear (1970 + k) \<le> 365 * k" by simp
  ultimately have "DayFromYear (1970 + k) \<le> t" by linarith
  with False show ?thesis by (simp add: k_def)
qed

lemma getUTCFullYear_unique:
  assumes "DayFromYear Y \<le> t" "t < DayFromYear (Y + 1)"
  shows "getUTCFullYear t = Y"
proof -
  let ?y0 = "1970 + (if 0 \<le> t then t div 366 else t div 365)"
  from start_not_late[of t] assms(2) have "DayFromYear ?y0 < DayFromYear (Y + 1)" by simp
  then have "?y0 < Y + 1" by (rule DayFromYear_less)
  then have "?y0 \<le> Y" by simp
  from yearSearch_finds[OF this assms] show ?thesis by (simp add: getUTCFullYear_def)
qed

lemma dayNum_eq: "(if getUTCDay d = 0 then 7 else getUTCDay d) = (d + 3) mod 7 + 1"
proof -
  have r: "0 \<le> (d + 3) mod 7" "(d + 3) mod 7 < 7" by simp_all
  have "((d + 3) mod 7 + 1) mod 7 = (d + 3 + 1) mod 7" by (rule mod_add_left_eq)
  then have s: "(d + 4) mod 7 = ((d + 3) mod 7 + 1) mod 7" by (simp add: add.commute)
  show ?thesis
  proof (cases "(d + 3) mod 7 = 6")
    case True
    with s show ?thesis by (simp add: getUTCDay_def)
  next
    case False
    with r have "(d + 3) mod 7 + 1 < 7" "0 \<le> (d + 3) mod 7 + 1" by simp_all
    then have "((d + 3) mod 7 + 1) mod 7 = (d + 3) mod 7 + 1" by simp
    with s r show ?thesis by (simp add: getUTCDay_def)
  qed
qed

lemma thursday_of_week:
  "d + 4 - (if getUTCDay d = 0 then 7 else getUTCDay d) = 7 * ((d + 3) div 7)"
  unfolding dayNum_eq using mult_div_mod_eq[of 7 "d + 3"] by linarith

lemma firstThursday_bounds:
  "DayFromYear y \<le> firstThursday y" "firstThursday y \<le> DayFromYear y + 6"
proof -
  have "0 \<le> (4 - getUTCDay (DayFromYear y)) mod 7" "(4 - getUTCDay (DayFromYear y)) mod 7 < 7"
    by simp_all
  then show "DayFromYear y \<le> firstThursday y" "firstThursday y \<le> DayFromYear y + 6"
    by (simp_all add: firstThursday_def Let_def)
qed

lemma firstThursday_multiple: "firstThursday y = 7 * (firstThursday y div 7)"
proof -
  define j where "j = DayFromYear y"
  have "(j + (4 - (j + 4) mod 7) mod 7) mod 7 = (j + (4 - (j + 4) mod 7)) mod 7"
    by (rule mod_add_right_eq)
  also have "j + (4 - (j + 4) mod 7) = (j + 4) - (j + 4) mod 7" by simp
  also have "\<dots> = 7 * ((j + 4) div 7)" by (rule minus_mod_eq_mult_div)
  also have "(7 * ((j + 4) div 7)) mod 7 = 0" by simp
  finally have "firstThursday y mod 7 = 0"
    by (simp add: firstThursday_def Let_def getUTCDay_def j_def)
  with mult_div_mod_eq[of 7 "firstThursday y"] show ?thesis by simp
qed

lemma week_of_thursday:
  assumes lo: "weekOneMonday Y \<le> d" and hi: "d < weekOneMonday (Y + 1)"
  shows "getUTCFullYear (7 * ((d + 3) div 7)) = Y"
    and "ceilDiv7 (7 * ((d + 3) div 7) - DayFromYear Y + 1) = isoWeek Y d"
proof -
  define q r where "q = (d + 3) div 7" and "r = (d + 3) mod 7"
  define f f' where "f = firstThursday Y div 7" and "f' = firstThursday (Y + 1) div 7"
  define u where "u = firstThursday Y - DayFromYear Y"
  have d: "d + 3 = 7 * q + r" unfolding q_def r_def by (simp only: mult_div_mod_eq)
  have r: "0 \<le> r" "r \<le> 6" by (simp_all add: r_def)
  have f: "firstThursday Y = 7 * f" unfolding f_def by (rule firstThursday_multiple)
  have f': "firstThursday (Y + 1) = 7 * f'" unfolding f'_def by (rule firstThursday_multiple)
  have u: "0 \<le> u" "u \<le> 6" using firstThursday_bounds[of Y] by (simp_all add: u_def)
  from lo d r f have fq: "f \<le> q" by (simp add: weekOneMonday_def)
  from hi d r f' have qf': "q + 1 \<le> f'" by (simp add: weekOneMonday_def)
  from fq f u have low: "DayFromYear Y \<le> 7 * q" by (simp add: u_def)
  from qf' f' firstThursday_bounds(2)[of "Y + 1"] have high: "7 * q < DayFromYear (Y + 1)"
    by simp
  from getUTCFullYear_unique[OF low high] show "getUTCFullYear (7 * ((d + 3) div 7)) = Y"
    by (simp add: q_def)
  have "- (7 * q - DayFromYear Y + 1) = 7 * (f - q - 1) + (6 - u)"
    using f by (simp add: u_def)
  from int_div_pos_eq[OF this] u have c: "(- (7 * q - DayFromYear Y + 1)) div 7 = f - q - 1"
    by simp
  have "d - weekOneMonday Y = 7 * (q - f) + r" using d f by (simp add: weekOneMonday_def)
  from int_div_pos_eq[OF this] r have w: "(d - weekOneMonday Y) div 7 = q - f" by simp
  from c w show "ceilDiv7 (7 * ((d + 3) div 7) - DayFromYear Y + 1) = isoWeek Y d"
    by (simp add: ceilDiv7_def isoWeek_def q_def)
qed

lemma getWeekNumber_iso:
  assumes "inWeekYear (calendarDay date) Y"
    and "\<not> twoDigitYear (getFullYear date)" and "\<not> twoDigitYear Y"
  shows "getWeekNumber date = isoWeek Y (calendarDay date)"
proof -
  from assms(1) have lo: "weekOneMonday Y \<le> calendarDay date"
    and hi: "calendarDay date < weekOneMonday (Y + 1)"
    by (simp_all add: inWeekYear_def)
  have a: "Date_UTC (getFullYear date) (getMonth date) (getDate date) = calendarDay date"
    using assms(2) by (auto simp: Date_UTC_def calendarDay_def twoDigitYear_def)
  have b: "Date_UTC Y 0 1 = DayFromYear Y"
    using assms(3) by (auto simp: Date_UTC_def MakeDay_def daysBeforeMonth_def twoDigitYear_def)
  show ?thesis
    unfolding getWeekNumber_def Let_def a thursday_of_week week_of_thursday(1)[OF lo hi] b
      week_of_thursday(2)[OF lo hi] ..
qed

text \<open>
  A week control is given the year of the date, \<open>-W\<close>, and the week number on two
  digits; the week number is the one of the ISO calendar for the week-numbering year
  \<open>Y\<close> of the date. The value is a date or a string that the host reads as one. Years
  from 0 to 99 are left out, \<open>Date.UTC\<close> reading them as 1900 to 1999.
\<close>

lemma fillDateTimeInput_week:
  assumes "v = JDate (ValidDate date) \<or> (v = JStr s \<and> parse s = ValidDate date)"
    and "inWeekYear (calendarDay date) Y"
    and "\<not> twoDigitYear (getFullYear date)" and "\<not> twoDigitYear Y"
  shows "fillDateTimeInput parse field ''week'' v =
        (True, field\<lparr>el_value := intToString (getFullYear date) @ ''-W'' @
                 padStart2 (intToString (isoWeek Y (calendarDay date)))\<rparr>)"
  using assms(1) getWeekNumber_iso[OF assms(2,3,4)]
  by (auto simp: fillDateTimeInput_def Let_def)

lemma DayFromYear_2024: "DayFromYear 2024 = 19723" "DayFromYear 2025 = 20089"
  "DayFromYear 2026 = 20454"
  by (simp_all add: DayFromYear_def)

lemma weekOneMonday_2024: "weekOneMonday 2024 = 19723" "weekOneMonday 2025 = 20087"
  "weekOneMonday 2026 = 20451"
  by (simp_all add: weekOneMonday_def firstThursday_def getUTCDay_def DayFromYear_2024)

lemma InLeapYear_2024: "InLeapYear 2024"
  by (simp add: InLeapYear_def DayFromYear_2024)

text \<open>
  Claim C8 (a week control is given the ISO 8601 week of the date, as \<open>YYYY-W##\<close>)
  holds of the week number and not of the year. The number written is the ISO week
  number (\<open>getWeekNumber_iso\<close>), but the year written is the calendar year of the date,
  not the week-numbering year the number belongs to. 15 January 2024, a Monday of week
  3 of 2024, gives \<open>2024-W03\<close>. 30 December 2024 is the Monday of week 1 of the
  week-numbering year 2025, and the control is given \<open>2024-W01\<close>, which is the week of
  1 January 2024.
\<close>

theorem fillDateTimeInput_week_year_is_calendar_year:
  "fillDateTimeInput (\<lambda>s. InvalidDate) weekField ''week'' (JDate (ValidDate monday15)) =
       (True, weekField\<lparr>el_value := ''2024-W03''\<rparr>)
   \<and> inWeekYear (calendarDay monday15) 2024 \<and> isoWeek 2024 (calendarDay monday15) = 3
   \<and> getUTCDay (calendarDay monday15) = 1
   \<and> fillDateTimeInput (\<lambda>s. InvalidDate) weekField ''week'' (JDate (ValidDate monday30)) =
       (True, weekField\<lparr>el_value := ''2024-W01''\<rparr>)
   \<and> inWeekYear (calendarDay monday30) 2025 \<and> isoWeek 2025 (calendarDay monday30) = 1
   \<and> getUTCDay (calendarDay monday30) = 1
   \<and> inWeekYear (MakeDay 2024 0 1) 2024 \<and> isoWeek 2024 (MakeDay 2024 0 1) = 1"
proof -
  have obs: "getFullYear monday15 = 2024" "getMonth monday15 = 0" "getDate monday15 = 15"
    "getFullYear monday30 = 2024" "getMonth monday30 = 11" "getDate monday30 = 30"
    by (simp_all add: monday15_def monday30_def)
  have day: "calendarDay monday15 = 19737" "calendarDay monday30 = 20087"
    "MakeDay 2024 0 1 = 19723"
    by (simp_all add: calendarDay_def obs MakeDay_def daysBeforeMonth_def DayFromYear_2024
        InLeapYear_2024)
  have yr: "inWeekYear (calendarDay monday15) 2024" "inWeekYear (calendarDay monday30) 2025"
    "inWeekYear (MakeDay 2024 0 1) 2024"
    by (simp_all add: inWeekYear_def day weekOneMonday_2024)
  have two: "\<not> twoDigitYear (getFullYear monday15)" "\<not> twoDigitYear (getFullYear monday30)"
    "\<not> twoDigitYear 2024" "\<not> twoDigitYear 2025"
    by (simp_all add: twoDigitYear_def obs)
  have wk: "isoWeek 2024 (calendarDay monday15) = 3" "isoWeek 2025 (calendarDay monday30) = 1"
    "isoWeek 2024 (MakeDay 2024 0 1) = 1"
    by (simp_all add: isoWeek_def day weekOneMonday_2024)
  have strs: "intToString 2024 = ''2024''" "padStart2 (intToString 3) = ''03''"
    "padStart2 (intToString 1) = ''01''"
    by code_simp+
  have mon: "getUTCDay (calendarDay monday15) = 1" "getUTCDay (calendarDay monday30) = 1"
    by (simp_all add: day getUTCDay_def)
  have a: "fillDateTimeInput (\<lambda>s. InvalidDate) weekField ''week'' (JDate (ValidDate monday15)) =
       (True, weekField\<lparr>el_value := ''2024-W03''\<rparr>)"
    using fillDateTimeInput_week[where v = "JDate (ValidDate monday15)"
        and date = monday15 and Y = 2024 and parse = "\<lambda>s. InvalidDate" and field = weekField,
        OF _ yr(1) two(1,3)]
    by (simp add: wk strs obs)
  have b: "fillDateTimeInput (\<lambda>s. InvalidDate) weekField ''week'' (JDate (ValidDate monday30)) =
       (True, weekField\<lparr>el_value := ''2024-W01''\<rparr>)"
    using fillDateTimeInput_week[where v = "JDate (ValidDate monday30)"
        and date = monday30 and Y = 2025 and parse = "\<lambda>s. InvalidDate" and field = weekField,
        OF _ yr(2) two(2,4)]
    by (simp add: wk strs obs)
  show ?thesis
    using a b yr wk mon by simp
qed

section \<open>Properties of the synthetic data generator\<close>

text \<open>
  Claim C7 (every generated card number is a 16-digit string that passes the Luhn
  checksum) does not hold of the code. When the first draw picks the prefix \<open>4\<close> and
  every later draw gives the digit 0, the generator returns 4000000000000006, which
  has 16 digits and fails the checksum: the check-digit loop leaves the last digit of
  the 15-digit body undoubled, although in the finished number that digit is the
  second from the right.
\<close>

theorem generateCreditCardNumber_fails_luhn:
  "generateCreditCardNumber (\<lambda>k. 0) = ''4000000000000006''
   \<and> length (generateCreditCardNumber (\<lambda>k. 0)) = 16
   \<and> list_all isDigit (generateCreditCardNumber (\<lambda>k. 0))
   \<and> luhnTotal (rev (generateCreditCardNumber (\<lambda>k. 0))) False = 14
   \<and> \<not> passesLuhn (generateCreditCardNumber (\<lambda>k. 0))"
  by code_simp

end
